theory Spec2Isabelle
  imports Main "HOL-Library.Log_Nat"
begin

section \<open>JavaScript numbers\<close>

text \<open>
  A JavaScript number is a binary64 double. The finite ones are rationals, and the model
  keeps a number as the rational it denotes (\<open>NaN\<close> and the infinities are no values of
  the model). Comparison is the comparison of rationals. The difference and the product
  of two numbers are the exact results rounded to the nearest double, ties to the even
  significand: \<open>fl\<close> rounds to 53 significant bits, or to a multiple of \<open>2^-1074\<close> below
  \<open>2^-1022\<close>. The controllers subtract a validated quantity from a stored count and
  multiply a validated price by a validated quantity; neither result reaches the
  overflow threshold \<open>2^1024\<close> as long as the stored price is one the ticket schema admits.
\<close>

definition two_pow :: "int \<Rightarrow> rat" where
  "two_pow k = (if 0 \<le> k then 2 ^ nat k else 1 / 2 ^ nat (- k))"

definition floor_log2 :: "rat \<Rightarrow> int" where
  "floor_log2 x =
     (case quotient_of x of (n, d) \<Rightarrow>
        let k = bitlen n - bitlen d in if two_pow k \<le> x then k else k - 1)"

definition round_half_even :: "rat \<Rightarrow> int" where
  "round_half_even y =
     (let f = \<lfloor>y\<rfloor>; d = y - of_int f
      in if d < 1 / 2 then f else if 1 / 2 < d then f + 1 else if even f then f else f + 1)"

definition fl :: "rat \<Rightarrow> rat" where
  "fl x =
     (if x = 0 then 0
      else let e = max (floor_log2 \<bar>x\<bar>) (- 1022); u = two_pow (e - 52)
           in of_int (round_half_even (x / u)) * u)"

definition js_sub :: "rat \<Rightarrow> rat \<Rightarrow> rat" where
  "js_sub a b = fl (a - b)"

definition js_mul :: "rat \<Rightarrow> rat \<Rightarrow> rat" where
  "js_mul a b = fl (a * b)"

text \<open>\<open>Number.MAX_SAFE_INTEGER\<close>, and the numbers that are integers.\<close>

definition MAX_SAFE_INTEGER :: rat where
  "MAX_SAFE_INTEGER = 9007199254740991"

definition is_whole :: "rat \<Rightarrow> bool" where
  "is_whole x = (of_int \<lfloor>x\<rfloor> = x)"

section \<open>Values, responses and errors\<close>

text \<open>
  The controllers answer with JSON bodies and keep JSON payloads in the Redis cache.
\<close>

datatype json =
    JNull
  | JBool bool
  | JNum rat
  | JStr string
  | JArr "json list"
  | JObj "(string \<times> json) list"

text \<open>
  A response is the HTTP status code and what was sent: \<open>res.status(c).json(v)\<close>,
  \<open>res.send(text)\<close>, or the page of Express's built-in handler, which answers
  when the error handler of the application throws itself.
\<close>

datatype body = Json json | Text string | ExpressErrorPage

record response =
  code :: nat
  content :: body

definition json_response :: "nat \<Rightarrow> json \<Rightarrow> response" where
  "json_response c v = \<lparr>code = c, content = Json v\<rparr>"

text \<open>
  The values that reach \<open>next(err)\<close>: an \<open>AppError\<close> (status false, operational),
  the error of a Joi schema (name \<open>ValidationError\<close>, with \<open>details\<close>), the
  validation error of a mongoose schema (the same name, no \<open>details\<close>), the
  duplicate-key error of a unique index (code 11000, the key of the index and the
  rejected value), a \<open>TypeError\<close>, and a failure of the store.
\<close>

datatype error =
    AppError nat string
  | JoiValidationError "string list"
  | MongooseValidationError
  | DuplicateKeyError string string
  | TypeError
  | StoreError

definition errorResult :: "nat \<Rightarrow> json \<Rightarrow> response" where
  "errorResult statusCode message =
     json_response statusCode (JObj [(''status'', JBool False), (''message'', message)])"

text \<open>
  \<open>errorHandler\<close>: the chain of tests on \<open>err.code\<close>, \<open>err.keyPattern\<close> and
  \<open>err.name\<close>, then \<open>errorResult\<close>. An error that no branch rewrites keeps
  \<open>statusCode = 500\<close>, is not operational and has no \<open>status\<close> field.
  \<open>handleValidationError\<close> reads \<open>error.details.map\<close>, which throws on a
  mongoose validation error.
\<close>

definition something_went_wrong :: response where
  "something_went_wrong = json_response 500 (JObj [(''message'', JStr ''Something went wrong'')])"

fun errorHandler :: "error \<Rightarrow> response" where
  "errorHandler (AppError statusCode msg) = errorResult statusCode (JStr msg)"
| "errorHandler (JoiValidationError details) = errorResult 400 (JArr (map JStr details))"
| "errorHandler MongooseValidationError = \<lparr>code = 500, content = ExpressErrorPage\<rparr>"
| "errorHandler (DuplicateKeyError key v) =
     (if key = ''email'' then
        errorResult 409 (JStr (''This '' @ v @ '' already exists''))
      else if key = ''userName'' then
        errorResult 409 (JStr (''Username '' @ v @ '' is already taken, please use a different name''))
      else if key = ''ticketType'' then
        errorResult 409 (JStr (''This ticket type '' @ v @ '' exists, please use a different type''))
      else something_went_wrong)"
| "errorHandler TypeError = something_went_wrong"
| "errorHandler StoreError = something_went_wrong"

section \<open>The store\<close>

text \<open>
  The mongoose models (ticket, purchasedTicket, payments, comments) and what the
  controllers read of the events, admins and users collections. A collection is the
  list of its documents with their ids, in insertion order. An id (an \<open>ObjectId\<close>) is kept
  as its 24 lower-case hexadecimal digits, which is also how \<open>toString\<close> and JSON render it.
\<close>

record ticket =
  t_admin :: string
  t_event :: string
  ticketType :: string
  price :: rat
  ticketsAvailable :: rat

record purchasedTicket =
  p_user :: string
  p_event :: string
  p_ticketType :: string
  ticketsQuantity :: rat
  totalPrice :: rat

record payment =
  pay_user :: string
  razorpay_payment_id :: string
  razorpay_order_id :: string
  razorpay_signature :: string

record comment =
  c_user :: string
  c_event :: string
  comments :: string
  createdAt :: string

record event =
  e_admin :: string
  active :: bool

record store =
  Events :: "(string \<times> event) list"
  Tickets :: "(string \<times> ticket) list"
  Purchases :: "(string \<times> purchasedTicket) list"
  Payments :: "(string \<times> payment) list"
  Comments :: "(string \<times> comment) list"
  Admins :: "(string \<times> string) list"
  Users :: "(string \<times> string) list"
  cache :: "string \<rightharpoonup> json"

text \<open>
  \<open>String.prototype.trim\<close>, the \<open>trim: true\<close> setter of the schemas. A character of the
  model is a code unit below 256; the white space among these is the space, the controls
  9 to 13 and the no-break space.
\<close>

definition is_space :: "char \<Rightarrow> bool" where
  "is_space c = (c \<in> set [CHR '' '', CHR 0x09, CHR 0x0A, CHR 0x0B, CHR 0x0C, CHR 0x0D, CHR 0xA0])"

definition trim :: "string \<Rightarrow> string" where
  "trim s = rev (dropWhile is_space (rev (dropWhile is_space s)))"

text \<open>
  \<open>mongoose.Types.ObjectId.isValid\<close> on a string: 24 hexadecimal digits, or 12
  characters (the second form is what the driver takes as the 12 bytes of an id). The
  ids of the instances below are of the first form.
\<close>

definition is_hex :: "char \<Rightarrow> bool" where
  "is_hex c = (c \<in> set ''0123456789abcdefABCDEF'')"

definition isValid :: "string \<Rightarrow> bool" where
  "isValid i = (length i = 12 \<or> (length i = 24 \<and> list_all is_hex i))"

text \<open>
  A query by id casts the string to an \<open>ObjectId\<close>: the hexadecimal digits are read
  without regard to case, and a string of 12 characters gives the id whose bytes are its
  characters. The controllers query only with strings that \<open>isValid\<close> accepts.
\<close>

definition lower_hex :: "char \<Rightarrow> char" where
  "lower_hex c =
     (if c = CHR ''A'' then CHR ''a'' else if c = CHR ''B'' then CHR ''b''
      else if c = CHR ''C'' then CHR ''c'' else if c = CHR ''D'' then CHR ''d''
      else if c = CHR ''E'' then CHR ''e'' else if c = CHR ''F'' then CHR ''f'' else c)"

definition hex_byte :: "char \<Rightarrow> string" where
  "hex_byte c = [''0123456789abcdef'' ! (of_char c div 16), ''0123456789abcdef'' ! (of_char c mod 16)]"

definition castObjectId :: "string \<Rightarrow> string" where
  "castObjectId i =
     (if length i = 24 \<and> list_all is_hex i then map lower_hex i
      else if length i = 12 then concat (map hex_byte i)
      else i)"

definition findById :: "(string \<times> 'v) list \<Rightarrow> string \<Rightarrow> 'v option" where
  "findById coll i = map_of coll (castObjectId i)"

section \<open>Request validation\<close>

text \<open>
  A body field is \<open>None\<close> when the request does not carry it. \<open>Joi.string().required()\<close>
  refuses an absent and an empty string; \<open>Joi.number().required()\<close> refuses an absent
  number and a number beyond \<open>Number.MAX_SAFE_INTEGER\<close> on either side; it has no bound
  on the sign and admits fractions. The first failure is the only detail reported.
\<close>

definition joi_string :: "string \<Rightarrow> string option \<Rightarrow> error + string" where
  "joi_string key v =
     (case v of
        None \<Rightarrow> Inl (JoiValidationError [''\"'' @ key @ ''\" is required''])
      | Some s \<Rightarrow>
          if s = [] then Inl (JoiValidationError [''\"'' @ key @ ''\" is not allowed to be empty''])
          else Inr s)"

definition joi_number :: "string \<Rightarrow> rat option \<Rightarrow> error + rat" where
  "joi_number key v =
     (case v of
        None \<Rightarrow> Inl (JoiValidationError [''\"'' @ key @ ''\" is required''])
      | Some n \<Rightarrow>
          if n > MAX_SAFE_INTEGER \<or> n < - MAX_SAFE_INTEGER then
            Inl (JoiValidationError [''\"'' @ key @ ''\" must be a safe number''])
          else Inr n)"

record purchase_body =
  b_ticketType :: "string option"
  b_ticketsQuantity :: "rat option"

definition purchaseTicketSchema :: "purchase_body \<Rightarrow> error + (string \<times> rat)" where
  "purchaseTicketSchema b =
     (case joi_string ''ticketType'' (b_ticketType b) of
        Inl e \<Rightarrow> Inl e
      | Inr ty \<Rightarrow>
          (case joi_number ''ticketsQuantity'' (b_ticketsQuantity b) of
             Inl e \<Rightarrow> Inl e
           | Inr q \<Rightarrow> Inr (ty, q)))"

record ticket_body =
  tb_ticketType :: "string option"
  tb_price :: "rat option"
  tb_ticketsAvailable :: "rat option"

definition ticketSchema :: "ticket_body \<Rightarrow> error + (string \<times> rat \<times> rat)" where
  "ticketSchema b =
     (case joi_string ''ticketType'' (tb_ticketType b) of
        Inl e \<Rightarrow> Inl e
      | Inr ty \<Rightarrow>
          (case joi_number ''price'' (tb_price b) of
             Inl e \<Rightarrow> Inl e
           | Inr p \<Rightarrow>
               (case joi_number ''ticketsAvailable'' (tb_ticketsAvailable b) of
                  Inl e \<Rightarrow> Inl e
                | Inr n \<Rightarrow> Inr (ty, p, n))))"

section \<open>Requests and the environment of one run\<close>

text \<open>
  \<open>user_id\<close> is \<open>req.user.id\<close> (for the payment controller \<open>req.user._id\<close>) of the
  principal that the \<open>auth\<close> middleware attached; \<open>param_id\<close> is \<open>req.params.id\<close>.
  The empty string is the falsy id.
\<close>

record 'b request =
  user_id :: string
  param_id :: string
  body :: 'b

text \<open>
  What the store decides during one run of a controller: the \<open>_id\<close> of a created
  document, and whether an operation of the purchase controller fails. \<open>create\<close> may
  throw or (the controller tests for it) return nothing; \<open>findById\<close> and \<open>save\<close> may throw.
\<close>

datatype outcome = Succeeds | Throws | ReturnsNull

record env =
  new_id :: string
  find_fails :: bool
  create_outcome :: outcome
  save_fails :: bool

definition updateById :: "('v \<Rightarrow> 'v) \<Rightarrow> string \<Rightarrow> (string \<times> 'v) list \<Rightarrow> (string \<times> 'v) list" where
  "updateById f i coll = map (\<lambda>(k, v). if k = i then (k, f v) else (k, v)) coll"

section \<open>Purchasing tickets\<close>

text \<open>
  \<open>updateTicketsAvailable\<close>: subtract, and store 0 when the difference is negative.
\<close>

definition updateTicketsAvailable :: "ticket \<Rightarrow> rat \<Rightarrow> ticket" where
  "updateTicketsAvailable ticket quantity =
     (let remainingTickets = js_sub (ticketsAvailable ticket) quantity
      in if remainingTickets \<ge> 0 then ticket\<lparr>ticketsAvailable := remainingTickets\<rparr>
         else ticket\<lparr>ticketsAvailable := 0\<rparr>)"

text \<open>
  \<open>PurchaseTicketModel.create\<close>: the schema trims \<open>ticketType\<close> and requires it
  to be non-empty; the new document is appended under the id the store assigns.
\<close>

definition PurchaseTicketModel_create ::
  "env \<Rightarrow> purchasedTicket \<Rightarrow> store \<Rightarrow> error + ((string \<times> purchasedTicket) option \<times> store)" where
  "PurchaseTicketModel_create e doc s =
     (case create_outcome e of
        Throws \<Rightarrow> Inl StoreError
      | ReturnsNull \<Rightarrow> Inr (None, s)
      | Succeeds \<Rightarrow>
          (let d = doc\<lparr>p_ticketType := trim (p_ticketType doc)\<rparr>
           in if p_ticketType d = [] then Inl MongooseValidationError
              else Inr (Some (new_id e, d), s\<lparr>Purchases := Purchases s @ [(new_id e, d)]\<rparr>)))"

text \<open>
  \<open>purchaseTicketController\<close> suspends at three operations of the store: the read of
  the ticket, the creation of the purchase record and the save of the ticket. The code
  between two of them runs without interruption. Each part below is the code up to and
  including one of these operations, so that the controller is their composition and an
  interleaving of two requests is a schedule of their parts.

  First part: validation, the checks on the principal and the id, \<open>Ticket.findById\<close>,
  and the checks on the ticket read. It answers, or continues with the \<open>_id\<close> of the
  ticket read, that ticket and the record to create.
\<close>

definition purchase_find ::
  "env \<Rightarrow> purchase_body request \<Rightarrow> store \<Rightarrow> response + (string \<times> ticket \<times> purchasedTicket)" where
  "purchase_find e req s =
     (case purchaseTicketSchema (body req) of
        Inl err \<Rightarrow> Inl (errorHandler err)
      | Inr (ty, quantity) \<Rightarrow>
          let userId = user_id req in
          if userId = [] then Inl (errorHandler (AppError 401 ''unauthorized access''))
          else
            let ticketId = param_id req in
            if \<not> isValid ticketId then Inl (errorHandler (AppError 400 ''invalid event id''))
            else if find_fails e then Inl (errorHandler StoreError)
            else
              (case findById (Tickets s) ticketId of
                 None \<Rightarrow> Inl (errorHandler (AppError 400 ''no tickets found''))
               | Some existingTicket \<Rightarrow>
                   if ticketType existingTicket \<noteq> ty then
                     Inl (errorHandler (AppError 400 ''invalid ticket type''))
                   else if quantity > ticketsAvailable existingTicket then
                     Inl (errorHandler (AppError 400 ''tickets not available''))
                   else
                     Inr (castObjectId ticketId, existingTicket,
                          \<lparr>p_user = userId, p_event = t_event existingTicket, p_ticketType = ty,
                           ticketsQuantity = quantity,
                           totalPrice = js_mul (price existingTicket) quantity\<rparr>)))"

text \<open>Second part: \<open>PurchaseTicketModel.create\<close> and the test of its result.\<close>

definition purchase_create ::
  "env \<Rightarrow> string \<times> ticket \<times> purchasedTicket \<Rightarrow> store \<Rightarrow>
     (response + (string \<times> ticket \<times> string \<times> purchasedTicket)) \<times> store" where
  "purchase_create e k s =
     (case k of (ticketId, existingTicket, doc) \<Rightarrow>
        (case PurchaseTicketModel_create e doc s of
           Inl err \<Rightarrow> (Inl (errorHandler err), s)
         | Inr (None, s') \<Rightarrow> (Inl (errorHandler (AppError 400 ''purchase failed, try again later'')), s')
         | Inr (Some (pid, newPurchasedTicket), s') \<Rightarrow>
             (Inr (ticketId, existingTicket, pid, newPurchasedTicket), s')))"

text \<open>
  Third part: \<open>updateTicketsAvailable\<close> on the ticket that was read, \<open>save\<close>, and
  the success response. \<open>save\<close> writes the paths that changed, here \<open>ticketsAvailable\<close>,
  to the stored document, and throws when that document is gone.
\<close>

definition purchase_save ::
  "env \<Rightarrow> string \<times> ticket \<times> string \<times> purchasedTicket \<Rightarrow> store \<Rightarrow> response \<times> store" where
  "purchase_save e k s =
     (case k of (ticketId, existingTicket, pid, newPurchasedTicket) \<Rightarrow>
        let updatedTicket = updateTicketsAvailable existingTicket (ticketsQuantity newPurchasedTicket) in
        if save_fails e then (errorHandler StoreError, s)
        else if map_of (Tickets s) ticketId = None then (errorHandler StoreError, s)
        else
          let s' = (if ticketsAvailable updatedTicket = ticketsAvailable existingTicket then s
                    else s\<lparr>Tickets := updateById (\<lambda>t. t\<lparr>ticketsAvailable := ticketsAvailable updatedTicket\<rparr>)
                                      ticketId (Tickets s)\<rparr>)
          in (json_response 201
                (JObj [(''status'', JBool True), (''message'', JStr ''purchase successful''),
                       (''data'', JObj [(''id'', JStr pid),
                                        (''ticketType'', JStr (p_ticketType newPurchasedTicket)),
                                        (''quantity'', JNum (ticketsQuantity newPurchasedTicket)),
                                        (''price'', JNum (totalPrice newPurchasedTicket))])]),
              s'))"

definition purchaseTicketController :: "env \<Rightarrow> purchase_body request \<Rightarrow> store \<Rightarrow> response \<times> store" where
  "purchaseTicketController e req s =
     (case purchase_find e req s of
        Inl r \<Rightarrow> (r, s)
      | Inr k \<Rightarrow>
          (case purchase_create e k s of
             (Inl r, s') \<Rightarrow> (r, s')
           | (Inr k', s') \<Rightarrow> purchase_save e k' s'))"

section \<open>Creating, updating and listing tickets\<close>

text \<open>
  \<open>Ticket.create\<close>: the schema trims \<open>ticketType\<close>, requires it to be non-empty and
  has a unique index on it; it puts no bound on \<open>price\<close> or \<open>ticketsAvailable\<close>.
\<close>

definition Ticket_create :: "env \<Rightarrow> ticket \<Rightarrow> store \<Rightarrow> error + ((string \<times> ticket) \<times> store)" where
  "Ticket_create e doc s =
     (let d = doc\<lparr>ticketType := trim (ticketType doc)\<rparr>
      in if ticketType d = [] then Inl MongooseValidationError
         else if list_ex (\<lambda>(i, t). ticketType t = ticketType d) (Tickets s) then
           Inl (DuplicateKeyError ''ticketType'' (ticketType d))
         else Inr ((new_id e, d), s\<lparr>Tickets := Tickets s @ [(new_id e, d)]\<rparr>))"

definition ticket_json :: "string \<Rightarrow> ticket \<Rightarrow> json" where
  "ticket_json i t =
     JObj [(''id'', JStr i), (''type'', JStr (ticketType t)), (''price'', JNum (price t)),
           (''ticketsAvailable'', JNum (ticketsAvailable t))]"

definition createTicketController :: "env \<Rightarrow> ticket_body request \<Rightarrow> store \<Rightarrow> response \<times> store" where
  "createTicketController e req s =
     (case ticketSchema (body req) of
        Inl err \<Rightarrow> (errorHandler err, s)
      | Inr (ty, pr, avail) \<Rightarrow>
          let adminId = user_id req in
          if adminId = [] then (errorHandler (AppError 401 ''unauthorized access''), s)
          else
            let eventId = param_id req in
            if \<not> isValid eventId then (errorHandler (AppError 400 ''invalid event id''), s)
            else
              (case findById (Events s) eventId of
                 None \<Rightarrow> (errorHandler (AppError 404 ''event not found''), s)
               | Some existingEvent \<Rightarrow>
                   if \<not> active existingEvent then
                     (json_response 200
                        (JObj [(''status'', JBool True), (''message'', JStr ''event is inactive'')]), s)
                   else if e_admin existingEvent \<noteq> adminId then
                     (errorHandler (AppError 403 ''you are not authorized to create tickets''), s)
                   else
                     (case Ticket_create e \<lparr>t_admin = adminId, t_event = castObjectId eventId,
                                             ticketType = ty,
                                             price = pr, ticketsAvailable = avail\<rparr> s of
                        Inl err \<Rightarrow> (errorHandler err, s)
                      | Inr ((i, newTicket), s') \<Rightarrow>
                          (json_response 201
                             (JObj [(''status'', JBool True),
                                    (''message'', JStr ''ticket created successfully''),
                                    (''ticket'', ticket_json i newTicket)]), s'))))"

text \<open>
  \<open>Ticket.findByIdAndUpdate\<close> with \<open>ticketType\<close>, \<open>price\<close> and \<open>ticketsAvailable\<close>
  (\<open>adminId\<close> and \<open>eventId\<close> are no paths of the schema, so they are dropped): the
  update is cast by the schema, which trims, and the unique index on \<open>ticketType\<close>
  refuses the type of another ticket.
\<close>

definition Ticket_findByIdAndUpdate ::
  "string \<Rightarrow> string \<times> rat \<times> rat \<Rightarrow> store \<Rightarrow> error + (ticket option \<times> store)" where
  "Ticket_findByIdAndUpdate ticketId u s =
     (case u of (ty, pr, avail) \<Rightarrow>
        (case findById (Tickets s) ticketId of
           None \<Rightarrow> Inr (None, s)
         | Some t \<Rightarrow>
             if list_ex (\<lambda>(i, t'). i \<noteq> castObjectId ticketId \<and> ticketType t' = trim ty)
                  (Tickets s) then
               Inl (DuplicateKeyError ''ticketType'' (trim ty))
             else
               let t' = t\<lparr>ticketType := trim ty, price := pr, ticketsAvailable := avail\<rparr>
               in Inr (Some t', s\<lparr>Tickets := updateById (\<lambda>_. t') (castObjectId ticketId) (Tickets s)\<rparr>)))"

definition updateTicketByIdController :: "ticket_body request \<Rightarrow> store \<Rightarrow> response \<times> store" where
  "updateTicketByIdController req s =
     (case ticketSchema (body req) of
        Inl err \<Rightarrow> (errorHandler err, s)
      | Inr (ty, pr, avail) \<Rightarrow>
          let adminId = user_id req in
          if adminId = [] then (errorHandler (AppError 401 ''unauthorized access''), s)
          else
            let ticketId = param_id req in
            if ticketId = [] \<or> \<not> isValid ticketId then
              (errorHandler (AppError 400 ''invalid ticket id''), s)
            else
              (case findById (Tickets s) ticketId of
                 None \<Rightarrow> (errorHandler (AppError 404 ''no tickets found''), s)
               | Some existingTicket \<Rightarrow>
                   if t_event existingTicket = [] then
                     (errorHandler (AppError 404 ''no events found with this ticket''), s)
                   else if t_admin existingTicket \<noteq> adminId then
                     (errorHandler (AppError 403 ''you are not authorized to update this ticket''), s)
                   else
                     (case Ticket_findByIdAndUpdate ticketId (ty, pr, avail) s of
                        Inl err \<Rightarrow> (errorHandler err, s)
                      | Inr (None, s') \<Rightarrow>
                          (errorHandler (AppError 400 ''Ticket not found or could not be updated''), s')
                      | Inr (Some updatedTicket, s') \<Rightarrow>
                          (json_response 200
                             (JObj [(''status'', JBool True),
                                    (''message'', JStr ''ticket updated successfully''),
                                    (''ticket'', ticket_json (castObjectId ticketId) updatedTicket)]),
                           s'))))"

text \<open>
  The cache holds what \<open>client.set(key, JSON.stringify(v), "EX", 3600)\<close> stored, as the
  value \<open>v\<close> that \<open>JSON.parse\<close> gives back; a stored array is never the empty string, so
  \<open>if (cachedData)\<close> is the test that the key is present. The expiry of an entry is a
  step of the environment that removes the key.

  \<open>Ticket.find({event}).populate("admin")\<close> and the mapping of the result: reading
  \<open>doc.admin.userName\<close> of a ticket whose admin is gone throws a \<open>TypeError\<close>.
\<close>

fun ticket_views :: "(string \<times> string) list \<Rightarrow> (string \<times> ticket) list \<Rightarrow> error + json list" where
  "ticket_views admins [] = Inr []"
| "ticket_views admins ((i, doc) # docs) =
     (case map_of admins (t_admin doc) of
        None \<Rightarrow> Inl TypeError
      | Some userName \<Rightarrow>
          (case ticket_views admins docs of
             Inl err \<Rightarrow> Inl err
           | Inr vs \<Rightarrow>
               Inr (JObj [(''id'', JStr i), (''createdBy'', JStr userName),
                          (''type'', JStr (ticketType doc)), (''price'', JNum (price doc)),
                          (''ticketsAvailable'', JNum (ticketsAvailable doc))] # vs)))"

definition ticketListByEventController :: "'b request \<Rightarrow> store \<Rightarrow> response \<times> store" where
  "ticketListByEventController req s =
     (let eventId = param_id req; key = ''tickets:'' @ eventId in
      case cache s key of
        Some cachedData \<Rightarrow>
          (json_response 200
             (JObj [(''status'', JBool True), (''message'', JStr ''successful''),
                    (''tickets'', cachedData)]), s)
      | None \<Rightarrow>
          if \<not> isValid eventId then (errorHandler (AppError 400 ''invalid event id''), s)
          else if user_id req = [] then (errorHandler (AppError 401 ''unauthorized access''), s)
          else
            let allTickets = filter (\<lambda>(i, t). t_event t = castObjectId eventId) (Tickets s) in
            if allTickets = [] then
              (errorHandler (AppError 404 ''no tickets found with this event''), s)
            else
              (case ticket_views (Admins s) allTickets of
                 Inl err \<Rightarrow> (errorHandler err, s)
               | Inr tickets \<Rightarrow>
                   (json_response 200
                      (JObj [(''status'', JBool True), (''message'', JStr ''successful''),
                             (''tickets'', JArr tickets)]),
                    s\<lparr>cache := (cache s)(key \<mapsto> JArr tickets)\<rparr>)))"

section \<open>Listing comments\<close>

text \<open>
  \<open>Comments.find({event}).populate("user")\<close>: a comment whose user is gone has
  \<open>user: null\<close>. \<open>createdAt\<close> stands for \<open>doc.createdAt.toLocaleString()\<close>.
\<close>

definition comment_view :: "(string \<times> string) list \<Rightarrow> string \<times> comment \<Rightarrow> json" where
  "comment_view users d =
     (case d of (i, doc) \<Rightarrow>
        JObj [(''id'', JStr i),
              (''user'', (case map_of users (c_user doc) of
                            None \<Rightarrow> JNull
                          | Some userName \<Rightarrow>
                              JObj [(''_id'', JStr (c_user doc)), (''userName'', JStr userName)])),
              (''comment'', JStr (comments doc)),
              (''time'', JStr (createdAt doc))])"

definition commentListController :: "'b request \<Rightarrow> store \<Rightarrow> response \<times> store" where
  "commentListController req s =
     (let eventId = param_id req; key = ''comment:'' @ eventId in
      case cache s key of
        Some cachedData \<Rightarrow>
          (json_response 200
             (JObj [(''status'', JBool True), (''message'', JStr ''successful''),
                    (''allComments'', cachedData)]), s)
      | None \<Rightarrow>
          if \<not> isValid eventId then (errorHandler (AppError 400 ''invalid event id''), s)
          else
            let commentsResult = filter (\<lambda>(i, c). c_event c = castObjectId eventId) (Comments s) in
            if commentsResult = [] then
              (errorHandler (AppError 404 ''no comments found for this event''), s)
            else
              let allComments = map (comment_view (Users s)) commentsResult in
              (json_response 200
                 (JObj [(''status'', JBool True), (''message'', JStr ''successful''),
                        (''allComments'', JArr allComments)]),
               s\<lparr>cache := (cache s)(key \<mapsto> JArr allComments)\<rparr>))"

section \<open>Verifying a payment\<close>

text \<open>
  The body of the verification request is not validated, so each field may be absent
  (\<open>undefined\<close>). The module keeps a variable \<open>orderId\<close>, declared by \<open>let orderId;\<close>
  and assigned nowhere. String concatenation renders \<open>undefined\<close> as the word.
\<close>

record payment_body =
  b_razorpay_payment_id :: "string option"
  b_razorpay_order_id :: "string option"
  b_razorpay_signature :: "string option"

definition orderId :: "string option" where
  "orderId = None"

definition js_string :: "string option \<Rightarrow> string" where
  "js_string v = (case v of None \<Rightarrow> ''undefined'' | Some s \<Rightarrow> s)"

definition secret :: string where
  "secret = ''ggMzScMI6LI4RpKdaudtuVQb''"

text \<open>
  \<open>paymentModel.create\<close>: each of the three strings is trimmed, required (present and
  non-empty) and under a unique index.
\<close>

definition required_string :: "string option \<Rightarrow> string option" where
  "required_string v =
     (case v of None \<Rightarrow> None | Some x \<Rightarrow> if trim x = [] then None else Some (trim x))"

definition paymentModel_create ::
  "env \<Rightarrow> string \<Rightarrow> payment_body \<Rightarrow> store \<Rightarrow> error + ((string \<times> payment) \<times> store)" where
  "paymentModel_create e userId b s =
     (case (required_string (b_razorpay_payment_id b), required_string (b_razorpay_order_id b),
            required_string (b_razorpay_signature b)) of
        (Some pid, Some oid, Some sig) \<Rightarrow>
          if list_ex (\<lambda>(i, p). razorpay_payment_id p = pid) (Payments s) then
            Inl (DuplicateKeyError ''razorpay_payment_id'' pid)
          else if list_ex (\<lambda>(i, p). razorpay_order_id p = oid) (Payments s) then
            Inl (DuplicateKeyError ''razorpay_order_id'' oid)
          else if list_ex (\<lambda>(i, p). razorpay_signature p = sig) (Payments s) then
            Inl (DuplicateKeyError ''razorpay_signature'' sig)
          else
            let d = \<lparr>pay_user = userId, razorpay_payment_id = pid, razorpay_order_id = oid,
                     razorpay_signature = sig\<rparr>
            in Inr ((new_id e, d), s\<lparr>Payments := Payments s @ [(new_id e, d)]\<rparr>)
      | _ \<Rightarrow> Inl MongooseValidationError)"

text \<open>
  \<open>paymentVerification\<close>. The digest \<open>crypto.createHmac('sha256', key).update(m).digest('hex')\<close>
  is the parameter \<open>hmac key m\<close>.
\<close>

definition generated_signature :: "(string \<Rightarrow> string \<Rightarrow> string) \<Rightarrow> payment_body \<Rightarrow> string" where
  "generated_signature hmac b =
     hmac secret (js_string orderId @ ''|'' @ js_string (b_razorpay_payment_id b))"

definition paymentVerification ::
  "(string \<Rightarrow> string \<Rightarrow> string) \<Rightarrow> env \<Rightarrow> payment_body request \<Rightarrow> store \<Rightarrow> response \<times> store" where
  "paymentVerification hmac e req s =
     (let userId = user_id req in
      if userId = [] then (errorHandler (AppError 401 ''unauthorized access''), s)
      else if Some (generated_signature hmac (body req)) \<noteq> b_razorpay_signature (body req) then
        (errorHandler (AppError 400 ''payment failed''), s)
      else
        (case paymentModel_create e userId (body req) s of
           Inl err \<Rightarrow> (errorHandler err, s)
         | Inr (newPayment, s') \<Rightarrow> (\<lparr>code = 200, content = Text ''success''\<rparr>, s')))"

section \<open>Purchases one after another, and interleaved\<close>

text \<open>
  A purchase is committed when the controller answers 201. \<open>sold_to\<close> adds the
  quantities of the committed requests for one ticket, whichever spelling of its id a
  request uses.
\<close>

definition committed :: "response \<Rightarrow> bool" where
  "committed r = (code r = 201)"

definition requested :: "purchase_body request \<Rightarrow> rat" where
  "requested req = (case b_ticketsQuantity (body req) of None \<Rightarrow> 0 | Some q \<Rightarrow> q)"

fun sold_to :: "string \<Rightarrow> (env \<times> purchase_body request) list \<Rightarrow> response list \<Rightarrow> rat" where
  "sold_to ticketId ((e, req) # reqs) (r # rs) =
     (if committed r \<and> castObjectId (param_id req) = castObjectId ticketId then requested req else 0)
       + sold_to ticketId reqs rs"
| "sold_to ticketId _ _ = 0"

fun purchases_in_sequence ::
  "(env \<times> purchase_body request) list \<Rightarrow> store \<Rightarrow> response list \<times> store" where
  "purchases_in_sequence [] s = ([], s)"
| "purchases_in_sequence ((e, req) # reqs) s =
     (case purchaseTicketController e req s of
        (r, s') \<Rightarrow> (case purchases_in_sequence reqs s' of (rs, s'') \<Rightarrow> (r # rs, s'')))"

text \<open>
  A request handler in flight is at one of its three operations of the store, or has
  answered. A schedule names, step by step, the handler whose next operation the store
  performs; the handlers share the store and nothing else.
\<close>

datatype handler =
    AtFind
  | AtCreate "string \<times> ticket \<times> purchasedTicket"
  | AtSave "string \<times> ticket \<times> string \<times> purchasedTicket"
  | Done response

fun handler_step :: "env \<Rightarrow> purchase_body request \<Rightarrow> handler \<Rightarrow> store \<Rightarrow> handler \<times> store" where
  "handler_step e req AtFind s =
     (case purchase_find e req s of Inl r \<Rightarrow> (Done r, s) | Inr k \<Rightarrow> (AtCreate k, s))"
| "handler_step e req (AtCreate k) s =
     (case purchase_create e k s of (Inl r, s') \<Rightarrow> (Done r, s') | (Inr k', s') \<Rightarrow> (AtSave k', s'))"
| "handler_step e req (AtSave k) s =
     (case purchase_save e k s of (r, s') \<Rightarrow> (Done r, s'))"
| "handler_step e req (Done r) s = (Done r, s)"

fun run_schedule ::
  "(env \<times> purchase_body request) list \<Rightarrow> nat list \<Rightarrow> handler list \<times> store \<Rightarrow> handler list \<times> store" where
  "run_schedule reqs [] c = c"
| "run_schedule reqs (i # sched) (hs, s) =
     (if i < length hs \<and> i < length reqs then
        (case handler_step (fst (reqs ! i)) (snd (reqs ! i)) (hs ! i) s of
           (h', s') \<Rightarrow> run_schedule reqs sched (hs[i := h'], s'))
      else run_schedule reqs sched (hs, s))"

fun answers :: "handler list \<Rightarrow> response list option" where
  "answers [] = Some []"
| "answers (Done r # hs) = (case answers hs of None \<Rightarrow> None | Some rs \<Rightarrow> Some (r # rs))"
| "answers (_ # hs) = None"

section \<open>Observations and a small instance\<close>

text \<open>
  \<open>available\<close> reads the stored count of a ticket. \<open>sold_interleaved\<close> runs the
  handlers of the given requests under a schedule, all starting before the first
  operation, and adds the committed quantities once every handler has answered.
\<close>

text \<open>
  One active event with one ticket type (five tickets at 100) and one comment, and buyers
  of that ticket.
\<close>

definition demo_store :: store where
  "demo_store =
     \<lparr>Events = [(''65a1b2c3d4e5f60718293a01'', \<lparr>e_admin = ''admin1'', active = True\<rparr>)],
      Tickets = [(''65a1b2c3d4e5f60718293b01'', \<lparr>t_admin = ''admin1'', t_event = ''65a1b2c3d4e5f60718293a01'',
                   ticketType = ''VIP'', price = 100, ticketsAvailable = 5\<rparr>)],
      Purchases = [], Payments = [],
      Comments = [(''65a1b2c3d4e5f60718293c01'', \<lparr>c_user = ''user1'', c_event = ''65a1b2c3d4e5f60718293a01'',
                    comments = ''see you there'', createdAt = ''1/5/2024, 10:00:00 AM''\<rparr>)],
      Admins = [(''admin1'', ''alice'')], Users = [(''user1'', ''bob'')],
      cache = Map.empty\<rparr>"

definition buy :: "string \<Rightarrow> rat \<Rightarrow> purchase_body request" where
  "buy u q = \<lparr>user_id = u, param_id = ''65a1b2c3d4e5f60718293b01'',
              body = \<lparr>b_ticketType = Some ''VIP'', b_ticketsQuantity = Some q\<rparr>\<rparr>"

definition store_ok :: "string \<Rightarrow> env" where
  "store_ok i = \<lparr>new_id = i, find_fails = False, create_outcome = Succeeds, save_fails = False\<rparr>"

definition two_buyers :: "(env \<times> purchase_body request) list" where
  "two_buyers = [(store_ok ''p1'', buy ''user1'' 3), (store_ok ''p2'', buy ''user2'' 3)]"

definition sold_interleaved ::
  "string \<Rightarrow> (env \<times> purchase_body request) list \<Rightarrow> nat list \<Rightarrow> store \<Rightarrow> rat option" where
  "sold_interleaved ticketId reqs sched s =
     (case answers (fst (run_schedule reqs sched (replicate (length reqs) AtFind, s))) of
        None \<Rightarrow> None
      | Some rs \<Rightarrow> Some (sold_to ticketId reqs rs))"

definition available :: "store \<Rightarrow> string \<Rightarrow> rat option" where
  "available s ticketId = map_option ticketsAvailable (findById (Tickets s) ticketId)"

text \<open>
  The inventory invariant: no stored ticket has a negative count. A ticket body
  respects it when the count it carries, if any, is not negative.
\<close>

definition inventory_nonneg :: "store \<Rightarrow> bool" where
  "inventory_nonneg s = list_all (\<lambda>(i, t). 0 \<le> ticketsAvailable t) (Tickets s)"

definition nonneg_request :: "ticket_body \<Rightarrow> bool" where
  "nonneg_request b = (case tb_ticketsAvailable b of None \<Rightarrow> True | Some n \<Rightarrow> 0 \<le> n)"

definition new_ticket :: "rat \<Rightarrow> ticket_body request" where
  "new_ticket n = \<lparr>user_id = ''admin1'', param_id = ''65a1b2c3d4e5f60718293a01'',
                   body = \<lparr>tb_ticketType = Some ''Regular'', tb_price = Some 50,
                           tb_ticketsAvailable = Some n\<rparr>\<rparr>"

definition store_throws_on_create :: env where
  "store_throws_on_create =
     \<lparr>new_id = ''p1'', find_fails = False, create_outcome = Throws, save_fails = False\<rparr>"

text \<open>
  A request for the ticket listing of the event, the listing that shows a given count,
  and the store after a listing (which fills the cache) followed by a purchase of 3.
\<close>

definition list_tickets :: "string \<Rightarrow> unit request" where
  "list_tickets u = \<lparr>user_id = u, param_id = ''65a1b2c3d4e5f60718293a01'', body = ()\<rparr>"

definition listed :: "rat \<Rightarrow> response" where
  "listed n = json_response 200
       (JObj [(''status'', JBool True), (''message'', JStr ''successful''),
              (''tickets'', JArr [JObj [(''id'', JStr ''65a1b2c3d4e5f60718293b01''), (''createdBy'', JStr ''alice''),
                                       (''type'', JStr ''VIP''), (''price'', JNum 100),
                                       (''ticketsAvailable'', JNum n)]])])"

definition after_listing_and_purchase :: "response \<times> store" where
  "after_listing_and_purchase =
     purchaseTicketController (store_ok ''p1'') (buy ''user1'' 3)
       (snd (ticketListByEventController (list_tickets ''user1'') demo_store))"

text \<open>
  For running the payment controller on an instance: a stand-in for the digest that
  keeps key and message apart, and a verification request for payment \<open>pay_1\<close> of
  order \<open>order_1\<close> with a given signature.
\<close>

definition digest :: "string \<Rightarrow> string \<Rightarrow> string" where
  "digest key m = key @ ''/'' @ m"

definition verify_request :: "string \<Rightarrow> payment_body request" where
  "verify_request sig =
     \<lparr>user_id = ''user1'', param_id = [],
      body = \<lparr>b_razorpay_payment_id = Some ''pay_1'', b_razorpay_order_id = Some ''order_1'',
              b_razorpay_signature = Some sig\<rparr>\<rparr>"

text \<open>
  The store once the ticket listing and the comment listing of the event have been
  read (both entries are in the cache), and an update of the ticket that sets its price.
\<close>

definition warm_store :: store where
  "warm_store =
     snd (commentListController (list_tickets ''user1'')
            (snd (ticketListByEventController (list_tickets ''user1'') demo_store)))"

definition reprice :: "rat \<Rightarrow> ticket_body request" where
  "reprice p = \<lparr>user_id = ''admin1'', param_id = ''65a1b2c3d4e5f60718293b01'',
                 body = \<lparr>tb_ticketType = Some ''VIP'', tb_price = Some p,
                         tb_ticketsAvailable = Some 5\<rparr>\<rparr>"

text \<open>What the two listings of the event put in the cache.\<close>

definition cached_tickets :: json where
  "cached_tickets = JArr [JObj [(''id'', JStr ''65a1b2c3d4e5f60718293b01''), (''createdBy'', JStr ''alice''),
                                (''type'', JStr ''VIP''), (''price'', JNum 100),
                                (''ticketsAvailable'', JNum 5)]]"

definition cached_comments :: json where
  "cached_comments = JArr [JObj [(''id'', JStr ''65a1b2c3d4e5f60718293c01''),
                                 (''user'', JObj [(''_id'', JStr ''user1''), (''userName'', JStr ''bob'')]),
                                 (''comment'', JStr ''see you there''),
                                 (''time'', JStr ''1/5/2024, 10:00:00 AM'')]]"

text \<open>
  Requests whose quantity, when they carry one, is a natural number.
\<close>

definition whole_quantity :: "purchase_body request \<Rightarrow> bool" where
  "whole_quantity req =
     (case b_ticketsQuantity (body req) of None \<Rightarrow> True | Some q \<Rightarrow> 0 \<le> q \<and> is_whole q)"

definition whole_quantities :: "(env \<times> purchase_body request) list \<Rightarrow> bool" where
  "whole_quantities reqs = list_all (\<lambda>(e, req). whole_quantity req) reqs"

text \<open>The instance with another count for the ticket.\<close>

definition store_with_count :: "rat \<Rightarrow> store" where
  "store_with_count n =
     demo_store\<lparr>Tickets := [(''65a1b2c3d4e5f60718293b01'',
        \<lparr>t_admin = ''admin1'', t_event = ''65a1b2c3d4e5f60718293a01'', ticketType = ''VIP'',
         price = 100, ticketsAvailable = n\<rparr>)]\<rparr>"

section \<open>Facts about rounding\<close>

text \<open>
  Rounding leaves an integer of magnitude at most \<open>Number.MAX_SAFE_INTEGER\<close> as it is:
  on such numbers the arithmetic of the controllers is exact.
\<close>

lemma round_half_even_of_int: "round_half_even (of_int m) = m"
  by (simp add: round_half_even_def)

lemma is_whole_of_int: "is_whole (of_int n)"
  by (simp add: is_whole_def)

lemma is_whole_obtain: "is_whole x \<Longrightarrow> \<exists>n. x = of_int n"
  by (metis is_whole_def)

lemma bitlen_le_53: "0 < n \<Longrightarrow> n < 2 ^ 53 \<Longrightarrow> 1 \<le> bitlen n \<and> bitlen n \<le> 53"
proof -
  assume n: "0 < n" "n < 2 ^ 53"
  from bitlen_bounds [OF n(1)] have lo: "2 ^ nat (bitlen n - 1) \<le> n" by simp
  have pos: "1 \<le> bitlen n" using n(1) by (simp add: bitlen_alt_def)
  have "bitlen n \<le> 53"
  proof (rule ccontr)
    assume "\<not> bitlen n \<le> 53"
    then have "53 \<le> nat (bitlen n - 1)" by simp
    then have "(2::int) ^ 53 \<le> 2 ^ nat (bitlen n - 1)"
      by (rule power_increasing) simp
    with lo n(2) show False by simp
  qed
  with pos show ?thesis by simp
qed

lemma fl_of_int_exact:
  assumes "\<bar>n\<bar> < 2 ^ 53"
  shows "fl (of_int n) = of_int n"
proof (cases "n = 0")
  case True
  then show ?thesis by (simp add: fl_def)
next
  case False
  let ?m = "\<bar>n\<bar>"
  have m: "0 < ?m" "?m < 2 ^ 53" using False assms by simp_all
  from bitlen_le_53 [OF m] have b: "1 \<le> bitlen ?m" "bitlen ?m \<le> 53" by simp_all
  have q: "quotient_of \<bar>rat_of_int n\<bar> = (?m, 1)"
  proof -
    have "\<bar>rat_of_int n\<bar> = rat_of_int \<bar>n\<bar>" by simp
    then show ?thesis by (simp only: quotient_of_rat_of_int)
  qed
  have b1: "bitlen 1 = 1" by (simp add: bitlen_alt_def)
  define e where "e = floor_log2 \<bar>rat_of_int n\<bar>"
  have e: "- 1 \<le> e" "e \<le> 52"
    using b b1 unfolding e_def floor_log2_def q by (simp_all add: Let_def split: if_splits)
  define j where "j = nat (52 - e)"
  have u: "two_pow (max e (- 1022) - 52) = 1 / 2 ^ j"
  proof (cases "e = 52")
    case True
    then show ?thesis by (simp add: two_pow_def j_def)
  next
    case False
    with e have "e - 52 < 0" "max e (- 1022) = e" by simp_all
    then show ?thesis by (simp add: two_pow_def j_def)
  qed
  have "rat_of_int n / (1 / 2 ^ j) = of_int (n * 2 ^ j)"
    by simp
  then have "round_half_even (rat_of_int n / (1 / 2 ^ j)) = n * 2 ^ j"
    by (simp only: round_half_even_of_int)
  then have "fl (of_int n) = of_int (n * 2 ^ j) * (1 / 2 ^ j)"
    using False u unfolding fl_def Let_def e_def [symmetric] by simp
  then show ?thesis by simp
qed

lemma fl_whole_exact:
  assumes "is_whole x" and "\<bar>x\<bar> \<le> MAX_SAFE_INTEGER"
  shows "fl x = x"
proof -
  from assms(1) obtain n where x: "x = of_int n" by (auto dest: is_whole_obtain)
  with assms(2) have "rat_of_int \<bar>n\<bar> \<le> rat_of_int 9007199254740991"
    by (simp add: MAX_SAFE_INTEGER_def)
  then have "\<bar>n\<bar> \<le> 9007199254740991" by (simp only: of_int_le_iff)
  then have "\<bar>n\<bar> < 2 ^ 53" by simp
  with x show ?thesis by (simp add: fl_of_int_exact)
qed

section \<open>Facts about the parts of the purchase controller\<close>

lemma map_of_updateById:
  "map_of (updateById f i coll) k = (if k = i then map_option f (map_of coll k) else map_of coll k)"
  by (induction coll) (auto simp: updateById_def)

lemma findById_updateById:
  "findById (updateById f i coll) k
     = (if castObjectId k = i then map_option f (findById coll k) else findById coll k)"
  by (simp add: findById_def map_of_updateById)

lemma code_errorResult [simp]: "code (errorResult c m) = c"
  by (simp add: errorResult_def json_response_def)

lemma code_something_went_wrong [simp]: "code something_went_wrong = 500"
  by (simp add: something_went_wrong_def json_response_def)

lemma code_json_response [simp]: "code (json_response c v) = c"
  by (simp add: json_response_def)

lemma purchaseTicketSchema_Inl:
  "purchaseTicketSchema b = Inl err \<Longrightarrow> code (errorHandler err) = 400"
  by (auto simp: purchaseTicketSchema_def joi_string_def joi_number_def
           split: option.splits if_splits sum.splits)

lemma purchaseTicketSchema_Inr:
  "purchaseTicketSchema b = Inr (ty, q) \<Longrightarrow>
     b_ticketType b = Some ty \<and> ty \<noteq> [] \<and> b_ticketsQuantity b = Some q
     \<and> - MAX_SAFE_INTEGER \<le> q \<and> q \<le> MAX_SAFE_INTEGER"
  by (auto simp: purchaseTicketSchema_def joi_string_def joi_number_def
           split: option.splits if_splits sum.splits)

lemma purchase_find_Inl:
  "purchase_find e req s = Inl r \<Longrightarrow> code r \<noteq> 201"
  by (auto simp: purchase_find_def Let_def dest: purchaseTicketSchema_Inl
           split: sum.splits prod.splits if_splits option.splits)

lemma purchase_find_Inr:
  assumes "purchase_find e req s = Inr k"
  shows "\<exists>t ty q. k = (castObjectId (param_id req), t,
             \<lparr>p_user = user_id req, p_event = t_event t, p_ticketType = ty,
              ticketsQuantity = q, totalPrice = js_mul (price t) q\<rparr>)
           \<and> purchaseTicketSchema (body req) = Inr (ty, q)
           \<and> user_id req \<noteq> [] \<and> isValid (param_id req) \<and> \<not> find_fails e
           \<and> findById (Tickets s) (param_id req) = Some t
           \<and> ticketType t = ty \<and> q \<le> ticketsAvailable t"
  using assms
  by (auto simp: purchase_find_def Let_def
           split: sum.splits prod.splits if_splits option.splits)

lemma purchase_create_Inl:
  "purchase_create e k s = (Inl r, s') \<Longrightarrow>
     code r \<noteq> 201 \<and> Tickets s' = Tickets s \<and> cache s' = cache s \<and> Purchases s' = Purchases s
     \<and> Payments s' = Payments s"
  by (auto simp: purchase_create_def PurchaseTicketModel_create_def Let_def
           split: sum.splits prod.splits if_splits option.splits outcome.splits)

lemma purchase_create_Inr:
  "purchase_create e (i, t, doc) s = (Inr k', s') \<Longrightarrow>
     create_outcome e = Succeeds \<and>
     k' = (i, t, new_id e, doc\<lparr>p_ticketType := trim (p_ticketType doc)\<rparr>) \<and>
     s' = s\<lparr>Purchases := Purchases s @ [(new_id e, doc\<lparr>p_ticketType := trim (p_ticketType doc)\<rparr>)]\<rparr>"
  by (auto simp: purchase_create_def PurchaseTicketModel_create_def Let_def
           split: sum.splits prod.splits if_splits option.splits outcome.splits)

lemma purchase_save_cases:
  "purchase_save e (i, t, pid, doc) s = (r, s') \<Longrightarrow>
     (code r = 500 \<and> s' = s) \<or>
     (code r = 201 \<and> \<not> save_fails e \<and> map_of (Tickets s) i \<noteq> None \<and>
      s' = (if ticketsAvailable (updateTicketsAvailable t (ticketsQuantity doc)) = ticketsAvailable t then s
            else s\<lparr>Tickets := updateById
                     (\<lambda>x. x\<lparr>ticketsAvailable := ticketsAvailable (updateTicketsAvailable t (ticketsQuantity doc))\<rparr>)
                     i (Tickets s)\<rparr>))"
  by (auto simp: purchase_save_def Let_def split: if_splits)

lemma updateTicketsAvailable_nonneg:
  "0 \<le> ticketsAvailable (updateTicketsAvailable t q)"
  by (simp add: updateTicketsAvailable_def Let_def)

lemma updateTicketsAvailable_exact:
  assumes "is_whole (ticketsAvailable t)" "is_whole q" "q \<le> ticketsAvailable t"
    and "\<bar>ticketsAvailable t - q\<bar> \<le> MAX_SAFE_INTEGER"
  shows "ticketsAvailable (updateTicketsAvailable t q) = ticketsAvailable t - q"
proof -
  from assms(1,2) obtain a b where "ticketsAvailable t = of_int a" "q = of_int b"
    by (auto dest!: is_whole_obtain)
  then have "is_whole (ticketsAvailable t - q)"
    by (metis is_whole_of_int of_int_diff)
  then have "fl (ticketsAvailable t - q) = ticketsAvailable t - q"
    using assms(4) by (rule fl_whole_exact)
  with assms(3) show ?thesis
    by (simp add: updateTicketsAvailable_def js_sub_def Let_def)
qed

lemma purchaseTicketController_cases:
  assumes "purchaseTicketController e req s = (r, s')"
  shows "(code r \<noteq> 201 \<and> Tickets s' = Tickets s \<and> cache s' = cache s \<and> Payments s' = Payments s) \<or>
         (code r = 201 \<and> create_outcome e = Succeeds \<and> \<not> save_fails e \<and> \<not> find_fails e \<and>
          user_id req \<noteq> [] \<and> isValid (param_id req) \<and>
          (\<exists>t ty q. purchaseTicketSchema (body req) = Inr (ty, q)
             \<and> findById (Tickets s) (param_id req) = Some t
             \<and> ticketType t = ty \<and> q \<le> ticketsAvailable t
             \<and> Purchases s' = Purchases s @
                  [(new_id e, \<lparr>p_user = user_id req, p_event = t_event t, p_ticketType = trim ty,
                               ticketsQuantity = q, totalPrice = js_mul (price t) q\<rparr>)]
             \<and> Tickets s' =
                 (if ticketsAvailable (updateTicketsAvailable t q) = ticketsAvailable t then Tickets s
                  else updateById (\<lambda>x. x\<lparr>ticketsAvailable := ticketsAvailable (updateTicketsAvailable t q)\<rparr>)
                         (castObjectId (param_id req)) (Tickets s))
             \<and> cache s' = cache s \<and> Payments s' = Payments s))"
proof (cases "purchase_find e req s")
  case (Inl r0)
  with assms have "r = r0" "s' = s"
    by (simp_all add: purchaseTicketController_def)
  with Inl show ?thesis
    by (auto dest: purchase_find_Inl)
next
  case (Inr k)
  let ?i = "castObjectId (param_id req)"
  from purchase_find_Inr [OF Inr] obtain t ty q where
    k: "k = (?i, t,
             \<lparr>p_user = user_id req, p_event = t_event t, p_ticketType = ty,
              ticketsQuantity = q, totalPrice = js_mul (price t) q\<rparr>)"
    and v: "purchaseTicketSchema (body req) = Inr (ty, q)"
    and f: "findById (Tickets s) (param_id req) = Some t"
    and ty: "ticketType t = ty" and q: "q \<le> ticketsAvailable t"
    and ok: "user_id req \<noteq> []" "isValid (param_id req)" "\<not> find_fails e"
    by blast
  let ?rec = "\<lparr>p_user = user_id req, p_event = t_event t, p_ticketType = trim ty,
              ticketsQuantity = q, totalPrice = js_mul (price t) q\<rparr>"
  obtain x s1 where c: "purchase_create e k s = (x, s1)"
    by (cases "purchase_create e k s")
  show ?thesis
  proof (cases x)
    case (Inl r1)
    with assms Inr c have "r = r1" "s' = s1"
      by (simp_all add: purchaseTicketController_def)
    with purchase_create_Inl [of e k s r1 s1] c Inl show ?thesis
      by simp
  next
    case (Inr k')
    with c k have c': "purchase_create e (?i, t,
             \<lparr>p_user = user_id req, p_event = t_event t, p_ticketType = ty,
              ticketsQuantity = q, totalPrice = js_mul (price t) q\<rparr>) s = (Inr k', s1)"
      by simp
    from purchase_create_Inr [OF c'] have
      co: "create_outcome e = Succeeds" and
      k': "k' = (?i, t, new_id e, ?rec)"
      and s1: "s1 = s\<lparr>Purchases := Purchases s @ [(new_id e, ?rec)]\<rparr>"
      by simp_all
    from assms \<open>purchase_find e req s = Inr k\<close> c Inr
    have sv: "purchase_save e k' s1 = (r, s')"
      by (simp add: purchaseTicketController_def)
    from purchase_save_cases [OF sv [unfolded k']] show ?thesis
    proof
      assume "code r = 500 \<and> s' = s1"
      with s1 show ?thesis by simp
    next
      assume a: "code r = 201 \<and> \<not> save_fails e \<and> map_of (Tickets s1) ?i \<noteq> None \<and>
        s' = (if ticketsAvailable (updateTicketsAvailable t (ticketsQuantity ?rec)) = ticketsAvailable t then s1
              else s1\<lparr>Tickets := updateById
                     (\<lambda>x. x\<lparr>ticketsAvailable := ticketsAvailable (updateTicketsAvailable t (ticketsQuantity ?rec))\<rparr>)
                     ?i (Tickets s1)\<rparr>)"
      with s1 v f ty q ok co show ?thesis
        by auto
    qed
  qed
qed

section \<open>The controller as a schedule of its parts\<close>

text \<open>
  A handler that is scheduled three times in a row, with no other handler in between,
  does what the controller does.
\<close>

lemma schedule_alone_is_controller:
  "run_schedule [(e, req)] [0, 0, 0] ([AtFind], s)
     = ([Done (fst (purchaseTicketController e req s))], snd (purchaseTicketController e req s))"
  by (simp add: purchaseTicketController_def split: sum.splits prod.splits)

section \<open>C1: oversell\<close>

lemma requested_valid:
  "purchaseTicketSchema (body req) = Inr (ty, q) \<Longrightarrow> requested req = q"
  by (auto simp: requested_def dest: purchaseTicketSchema_Inr)

lemma is_whole_diff: "is_whole a \<Longrightarrow> is_whole b \<Longrightarrow> is_whole (a - b)"
  by (metis is_whole_obtain is_whole_of_int of_int_diff)

lemma purchase_step_inventory:
  assumes R: "purchaseTicketController e req s = (r, s')"
    and f: "findById (Tickets s) ticketId = Some t"
    and w: "is_whole (ticketsAvailable t)" "0 \<le> ticketsAvailable t"
           "ticketsAvailable t \<le> MAX_SAFE_INTEGER"
    and wq: "whole_quantity req"
  shows "\<exists>t'. findById (Tickets s') ticketId = Some t'
           \<and> ticketsAvailable t' = ticketsAvailable t
                - (if committed r \<and> castObjectId (param_id req) = castObjectId ticketId
                   then requested req else 0)
           \<and> is_whole (ticketsAvailable t') \<and> 0 \<le> ticketsAvailable t'
           \<and> ticketsAvailable t' \<le> MAX_SAFE_INTEGER"
  using purchaseTicketController_cases [OF R]
proof
  assume "code r \<noteq> 201 \<and> Tickets s' = Tickets s \<and> cache s' = cache s \<and> Payments s' = Payments s"
  with f w show ?thesis by (simp add: committed_def)
next
  assume "code r = 201 \<and> create_outcome e = Succeeds \<and> \<not> save_fails e \<and> \<not> find_fails e \<and>
          user_id req \<noteq> [] \<and> isValid (param_id req) \<and>
          (\<exists>t ty q. purchaseTicketSchema (body req) = Inr (ty, q)
             \<and> findById (Tickets s) (param_id req) = Some t
             \<and> ticketType t = ty \<and> q \<le> ticketsAvailable t
             \<and> Purchases s' = Purchases s @
                  [(new_id e, \<lparr>p_user = user_id req, p_event = t_event t, p_ticketType = trim ty,
                               ticketsQuantity = q, totalPrice = js_mul (price t) q\<rparr>)]
             \<and> Tickets s' =
                 (if ticketsAvailable (updateTicketsAvailable t q) = ticketsAvailable t then Tickets s
                  else updateById (\<lambda>x. x\<lparr>ticketsAvailable := ticketsAvailable (updateTicketsAvailable t q)\<rparr>)
                         (castObjectId (param_id req)) (Tickets s))
             \<and> cache s' = cache s \<and> Payments s' = Payments s)"
  then obtain t0 ty q where c: "code r = 201"
    and v: "purchaseTicketSchema (body req) = Inr (ty, q)"
    and f0: "findById (Tickets s) (param_id req) = Some t0"
    and q: "q \<le> ticketsAvailable t0"
    and T: "Tickets s' =
                 (if ticketsAvailable (updateTicketsAvailable t0 q) = ticketsAvailable t0 then Tickets s
                  else updateById (\<lambda>x. x\<lparr>ticketsAvailable := ticketsAvailable (updateTicketsAvailable t0 q)\<rparr>)
                         (castObjectId (param_id req)) (Tickets s))"
    by blast
  have rq: "requested req = q" using v by (rule requested_valid)
  from v wq have q0: "0 \<le> q" "is_whole q"
    by (auto simp: whole_quantity_def dest: purchaseTicketSchema_Inr)
  show ?thesis
  proof (cases "castObjectId (param_id req) = castObjectId ticketId")
    case True
    with f0 f have t0: "t0 = t" by (simp add: findById_def)
    have d: "is_whole (ticketsAvailable t - q)" "0 \<le> ticketsAvailable t - q"
            "ticketsAvailable t - q \<le> MAX_SAFE_INTEGER"
      using w q0 q t0 by (simp_all add: is_whole_diff)
    then have ex: "ticketsAvailable (updateTicketsAvailable t q) = ticketsAvailable t - q"
      using w q0 q t0 by (intro updateTicketsAvailable_exact) simp_all
    show ?thesis
    proof (cases "ticketsAvailable (updateTicketsAvailable t q) = ticketsAvailable t")
      case same: True
      with T t0 have "Tickets s' = Tickets s" by simp
      with f w same ex True c rq show ?thesis
        by (simp add: committed_def)
    next
      case False
      with T t0 have "Tickets s' = updateById (\<lambda>x. x\<lparr>ticketsAvailable := ticketsAvailable t - q\<rparr>)
                         (castObjectId (param_id req)) (Tickets s)"
        using ex by simp
      with f True d c rq show ?thesis
        by (simp add: committed_def findById_updateById)
    qed
  next
    case False
    then have "castObjectId ticketId \<noteq> castObjectId (param_id req)" by simp
    with T f have "findById (Tickets s') ticketId = Some t"
      by (simp add: findById_updateById)
    with False w show ?thesis by simp
  qed
qed

lemma sequence_inventory:
  "findById (Tickets s) ticketId = Some t \<Longrightarrow> is_whole (ticketsAvailable t) \<Longrightarrow>
   0 \<le> ticketsAvailable t \<Longrightarrow> ticketsAvailable t \<le> MAX_SAFE_INTEGER \<Longrightarrow>
   whole_quantities reqs \<Longrightarrow>
     \<exists>t'. findById (Tickets (snd (purchases_in_sequence reqs s))) ticketId = Some t'
        \<and> ticketsAvailable t' =
            ticketsAvailable t - sold_to ticketId reqs (fst (purchases_in_sequence reqs s))
        \<and> 0 \<le> ticketsAvailable t'"
proof (induction reqs arbitrary: s t)
  case Nil
  then show ?case by simp
next
  case (Cons x reqs)
  obtain e req where x: "x = (e, req)" by (cases x)
  obtain r s1 where step: "purchaseTicketController e req s = (r, s1)"
    by (cases "purchaseTicketController e req s")
  from Cons.prems(5) x have wq: "whole_quantity req" and wqs: "whole_quantities reqs"
    by (simp_all add: whole_quantities_def)
  from purchase_step_inventory [OF step Cons.prems(1-4) wq] obtain t1 where
    t1: "findById (Tickets s1) ticketId = Some t1"
    and a1: "ticketsAvailable t1 = ticketsAvailable t
                - (if committed r \<and> castObjectId (param_id req) = castObjectId ticketId
                   then requested req else 0)"
    and n1: "is_whole (ticketsAvailable t1)" "0 \<le> ticketsAvailable t1"
            "ticketsAvailable t1 \<le> MAX_SAFE_INTEGER"
    by blast
  from Cons.IH [OF t1 n1 wqs] obtain t' where
    "findById (Tickets (snd (purchases_in_sequence reqs s1))) ticketId = Some t'"
    "ticketsAvailable t' =
        ticketsAvailable t1 - sold_to ticketId reqs (fst (purchases_in_sequence reqs s1))"
    "0 \<le> ticketsAvailable t'"
    by blast
  with a1 x step show ?case
    by (auto split: prod.splits)
qed

text \<open>
  C1, as amended. Take purchase requests whose quantities are natural numbers, served one
  after another (each controller run ends before the next begins) against a store in
  which the ticket has \<open>ticketsAvailable = N\<close>, an integer with
  \<open>0 \<le> N \<le> Number.MAX_SAFE_INTEGER\<close>. Then the quantities of the committed
  purchases of that ticket add up to at most \<open>N\<close>. The controller reads the ticket,
  creates the record and saves the ticket in three separate operations of the store, with
  no guard on the value read, so the bound does not extend to interleaved runs; and it
  computes with doubles and takes quantities of either sign, so it does not extend to
  negative or fractional quantities either.
\<close>

theorem sequential_purchases_no_oversell:
  assumes "findById (Tickets s) ticketId = Some t"
    and "is_whole (ticketsAvailable t)" and "0 \<le> ticketsAvailable t"
    and "ticketsAvailable t \<le> MAX_SAFE_INTEGER"
    and "whole_quantities reqs"
  shows "sold_to ticketId reqs (fst (purchases_in_sequence reqs s)) \<le> ticketsAvailable t"
  using sequence_inventory [OF assms] by auto

theorem sequential_purchases_no_oversell_witness:
  "findById (Tickets demo_store) ''65a1b2c3d4e5f60718293b01'' =
     Some \<lparr>t_admin = ''admin1'', t_event = ''65a1b2c3d4e5f60718293a01'', ticketType = ''VIP'', price = 100,
           ticketsAvailable = 5\<rparr>
   \<and> whole_quantities two_buyers
   \<and> sold_to ''65a1b2c3d4e5f60718293b01'' two_buyers (fst (purchases_in_sequence two_buyers demo_store)) \<le> 5"
proof -
  let ?t = "\<lparr>t_admin = ''admin1'', t_event = ''65a1b2c3d4e5f60718293a01'', ticketType = ''VIP'',
            price = 100, ticketsAvailable = 5\<rparr>"
  have f: "findById (Tickets demo_store) ''65a1b2c3d4e5f60718293b01'' = Some ?t"
    by code_simp
  have a: "is_whole (ticketsAvailable ?t)" "0 \<le> ticketsAvailable ?t"
          "ticketsAvailable ?t \<le> MAX_SAFE_INTEGER"
    by (simp_all add: is_whole_def MAX_SAFE_INTEGER_def)
  have w: "whole_quantities two_buyers"
    by code_simp
  from sequential_purchases_no_oversell [OF f a w] f w show ?thesis by simp
qed

text \<open>
  C1 as stated fails. Two requests for 3 of a ticket with 5 available, interleaved at
  the operations of the store (both read 5, both create their record, both save 2):
  both are answered 201, 6 tickets are sold, and the stored count ends at 2.
\<close>

theorem oversell_interleaved_counterexample:
  "available demo_store ''65a1b2c3d4e5f60718293b01'' = Some 5
   \<and> sold_interleaved ''65a1b2c3d4e5f60718293b01'' two_buyers [0, 1, 0, 1, 0, 1] demo_store = Some 6
   \<and> available (snd (run_schedule two_buyers [0, 1, 0, 1, 0, 1] ([AtFind, AtFind], demo_store)))
        ''65a1b2c3d4e5f60718293b01'' = Some 2"
  by code_simp

text \<open>
  Why the amended statement asks for natural numbers. Served one after another against a
  count of 4, the requests for \<open>-(2^53 - 1)\<close>, \<open>2^53 - 1\<close> and 5 are all committed,
  because \<open>4 + (2^53 - 1)\<close> is stored as the double \<open>2^53 + 4\<close>: 5 tickets are sold
  out of 4. And against a count of 5, a request for \<open>-2\<close> followed by one for 7: both
  are committed.
\<close>

lemma sequential_rounding_example:
  "map code (fst (purchases_in_sequence
      [(store_ok ''p1'', buy ''user1'' (- 9007199254740991)),
       (store_ok ''p2'', buy ''user1'' 9007199254740991),
       (store_ok ''p3'', buy ''user1'' 5)] (store_with_count 4))) = [201, 201, 201]
   \<and> sold_to ''65a1b2c3d4e5f60718293b01''
        [(store_ok ''p1'', buy ''user1'' (- 9007199254740991)),
         (store_ok ''p2'', buy ''user1'' 9007199254740991),
         (store_ok ''p3'', buy ''user1'' 5)]
        (fst (purchases_in_sequence
          [(store_ok ''p1'', buy ''user1'' (- 9007199254740991)),
           (store_ok ''p2'', buy ''user1'' 9007199254740991),
           (store_ok ''p3'', buy ''user1'' 5)] (store_with_count 4))) = 5"
  by code_simp

lemma negative_then_more_than_stock_example:
  "map code (fst (purchases_in_sequence
      [(store_ok ''p1'', buy ''user1'' (- 2)), (store_ok ''p2'', buy ''user2'' 7)] demo_store))
     = [201, 201]"
  by code_simp

section \<open>C2: the inventory never negative\<close>

lemma list_all_updateById:
  "list_all P coll \<Longrightarrow> (\<And>v. P (i, f v)) \<Longrightarrow> list_all P (updateById f i coll)"
  by (induction coll) (auto simp: updateById_def)

lemma ticketSchema_Inr:
  "ticketSchema b = Inr (ty, p, n) \<Longrightarrow> tb_ticketsAvailable b = Some n \<and> tb_price b = Some p"
  by (auto simp: ticketSchema_def joi_string_def joi_number_def
           split: option.splits if_splits sum.splits)

lemma purchase_inventory_nonneg:
  assumes "inventory_nonneg s"
  shows "inventory_nonneg (snd (purchaseTicketController e req s))"
proof -
  obtain r s' where R: "purchaseTicketController e req s = (r, s')"
    by (cases "purchaseTicketController e req s")
  from purchaseTicketController_cases [OF R] assms have "inventory_nonneg s'"
    by (auto simp: inventory_nonneg_def updateTicketsAvailable_nonneg intro!: list_all_updateById)
  with R show ?thesis by simp
qed

lemma create_inventory_nonneg:
  assumes "inventory_nonneg s" and "nonneg_request (body req)"
  shows "inventory_nonneg (snd (createTicketController e req s))"
  using assms
  by (auto simp: createTicketController_def Ticket_create_def Let_def inventory_nonneg_def
                 nonneg_request_def
           dest!: ticketSchema_Inr
           split: sum.splits prod.splits option.splits if_splits)

lemma update_inventory_nonneg:
  assumes "inventory_nonneg s" and "nonneg_request (body req)"
  shows "inventory_nonneg (snd (updateTicketByIdController req s))"
  using assms
  by (auto simp: updateTicketByIdController_def Ticket_findByIdAndUpdate_def Let_def
                 inventory_nonneg_def nonneg_request_def
           dest!: ticketSchema_Inr intro!: list_all_updateById
           split: sum.splits prod.splits option.splits if_splits)

text \<open>
  C2, as amended. Every purchase attempt, committed or not, keeps the invariant that no
  ticket has a negative \<open>ticketsAvailable\<close>; ticket creation and ticket update keep it
  when the \<open>ticketsAvailable\<close> of the request is not negative. The Joi schema and the
  mongoose schema of a ticket put no lower bound on that number, so creation and update
  store it as given.
\<close>

theorem inventory_nonneg_preserved:
  assumes "inventory_nonneg s"
  shows "inventory_nonneg (snd (purchaseTicketController e req s))
       \<and> (nonneg_request (body treq) \<longrightarrow>
            inventory_nonneg (snd (createTicketController e treq s))
          \<and> inventory_nonneg (snd (updateTicketByIdController treq s)))"
  using assms purchase_inventory_nonneg create_inventory_nonneg update_inventory_nonneg
  by blast

theorem inventory_nonneg_preserved_witness:
  "inventory_nonneg demo_store \<and> nonneg_request (body (new_ticket 20))
   \<and> nonneg_request (body (reprice 150))
   \<and> inventory_nonneg (snd (purchaseTicketController (store_ok ''p1'') (buy ''user1'' 3) demo_store))
   \<and> inventory_nonneg
        (snd (createTicketController (store_ok ''65a1b2c3d4e5f60718293b02'') (new_ticket 20) demo_store))
   \<and> inventory_nonneg (snd (updateTicketByIdController (reprice 150) demo_store))"
proof -
  have a: "inventory_nonneg demo_store"
    by (simp add: inventory_nonneg_def demo_store_def)
  have b: "nonneg_request (body (new_ticket 20))"
    by (simp add: nonneg_request_def new_ticket_def)
  have c: "nonneg_request (body (reprice 150))"
    by (simp add: nonneg_request_def reprice_def)
  from inventory_nonneg_preserved
         [OF a, of "store_ok ''65a1b2c3d4e5f60718293b02''" "buy ''user1'' 3" "new_ticket 20"] b
  have 1: "inventory_nonneg
        (snd (createTicketController (store_ok ''65a1b2c3d4e5f60718293b02'') (new_ticket 20) demo_store))"
    by blast
  from inventory_nonneg_preserved [OF a, of "store_ok ''p1''" "buy ''user1'' 3" "reprice 150"] c
  have 2: "inventory_nonneg (snd (purchaseTicketController (store_ok ''p1'') (buy ''user1'' 3) demo_store))
      \<and> inventory_nonneg (snd (updateTicketByIdController (reprice 150) demo_store))"
    by blast
  from a b c 1 2 show ?thesis by blast
qed

text \<open>
  C2 as stated fails at ticket creation: a request with \<open>ticketsAvailable = -5\<close> is
  answered 201 and the ticket is stored with \<open>-5\<close>.
\<close>

theorem create_negative_inventory_counterexample:
  "code (fst (createTicketController (store_ok ''65a1b2c3d4e5f60718293b02'') (new_ticket (- 5)) demo_store)) = 201
   \<and> available (snd (createTicketController (store_ok ''65a1b2c3d4e5f60718293b02'') (new_ticket (- 5)) demo_store))
        ''65a1b2c3d4e5f60718293b02'' = Some (- 5)"
  by code_simp

section \<open>C3: no inventory change without a committed purchase\<close>

text \<open>
  C3. A purchase attempt in which the creation of the purchase record fails (it throws or
  returns nothing), or the save fails, is not committed, and every attempt that is not
  committed (rejected, or failed at any operation of the store) leaves every ticket as it
  was: when the controller returns, \<open>ticketsAvailable\<close> has its value from before the
  attempt. The controller writes to the ticket only after the record exists, in its last
  operation, so there is nothing to release.
\<close>

theorem purchase_not_committed_inventory_unchanged:
  "(create_outcome e \<noteq> Succeeds \<or> save_fails e \<longrightarrow> \<not> committed (fst (purchaseTicketController e req s)))
   \<and> (\<not> committed (fst (purchaseTicketController e req s)) \<longrightarrow>
        Tickets (snd (purchaseTicketController e req s)) = Tickets s)"
proof -
  obtain r s' where R: "purchaseTicketController e req s = (r, s')"
    by (cases "purchaseTicketController e req s")
  from purchaseTicketController_cases [OF R] R show ?thesis
    by (auto simp: committed_def)
qed

theorem purchase_not_committed_inventory_unchanged_witness:
  "create_outcome store_throws_on_create \<noteq> Succeeds
   \<and> \<not> committed (fst (purchaseTicketController store_throws_on_create (buy ''user1'' 3) demo_store))
   \<and> Tickets (snd (purchaseTicketController store_throws_on_create (buy ''user1'' 3) demo_store))
       = Tickets demo_store"
proof -
  have a: "create_outcome store_throws_on_create \<noteq> Succeeds"
    by (simp add: store_throws_on_create_def)
  from purchase_not_committed_inventory_unchanged
         [of store_throws_on_create "buy ''user1'' 3" demo_store] a
  show ?thesis by blast
qed

section \<open>C4: the cache after a purchase\<close>

text \<open>
  C4, as amended. A purchase, committed or not, leaves the cache as it was: the
  controller never touches it, and no controller removes a key. So a ticket listing read
  after the purchase is answered from the entry \<open>tickets:<eventId>\<close> whenever that entry
  is present, with the same response as before the purchase; it shows the count of the
  store only once the entry is gone (it expires after an hour).
\<close>

theorem purchase_leaves_cache:
  "cache (snd (purchaseTicketController e req s)) = cache s
   \<and> (cache s (''tickets:'' @ param_id lreq) \<noteq> None \<longrightarrow>
        fst (ticketListByEventController lreq (snd (purchaseTicketController e req s)))
          = fst (ticketListByEventController lreq s))"
proof -
  obtain r s' where R: "purchaseTicketController e req s = (r, s')"
    by (cases "purchaseTicketController e req s")
  from purchaseTicketController_cases [OF R] have c: "cache s' = cache s"
    by auto
  with R show ?thesis
    by (auto simp: ticketListByEventController_def Let_def split: option.splits)
qed

theorem purchase_leaves_cache_witness:
  "cache (snd (ticketListByEventController (list_tickets ''user1'') demo_store))
     (''tickets:'' @ param_id (list_tickets ''user2'')) \<noteq> None
   \<and> fst (ticketListByEventController (list_tickets ''user2'')
          (snd (purchaseTicketController (store_ok ''p1'') (buy ''user1'' 3)
             (snd (ticketListByEventController (list_tickets ''user1'') demo_store)))))
     = fst (ticketListByEventController (list_tickets ''user2'')
          (snd (ticketListByEventController (list_tickets ''user1'') demo_store)))"
proof -
  have a: "cache (snd (ticketListByEventController (list_tickets ''user1'') demo_store))
     (''tickets:'' @ param_id (list_tickets ''user2'')) \<noteq> None"
    by code_simp
  from purchase_leaves_cache [of "store_ok ''p1''" "buy ''user1'' 3"
         "snd (ticketListByEventController (list_tickets ''user1'') demo_store)"
         "list_tickets ''user2''"] a
  show ?thesis by blast
qed

text \<open>
  C4 as stated fails. A listing fills the cache with the count 5; a purchase of 3 is
  committed and the store holds 2; the listing read next still shows 5.
\<close>

theorem stale_listing_after_purchase_counterexample:
  "code (fst after_listing_and_purchase) = 201
   \<and> available (snd after_listing_and_purchase) ''65a1b2c3d4e5f60718293b01'' = Some 2
   \<and> fst (ticketListByEventController (list_tickets ''user1'') (snd after_listing_and_purchase))
       = listed 5"
  by code_simp

section \<open>C5: the signature check\<close>

lemma paymentModel_create_Inl:
  "paymentModel_create e u b s = Inl err \<Longrightarrow> code (errorHandler err) = 500"
  by (auto simp: paymentModel_create_def Let_def
           split: option.splits if_splits prod.splits)

text \<open>
  C5, on the code. For an authenticated request, \<open>paymentVerification\<close> answers
  400 \<open>payment failed\<close> exactly when the supplied signature differs from the digest,
  under the shared secret, of \<open>undefined|<razorpay_payment_id>\<close>: the message is built
  from the module variable \<open>orderId\<close>, which is never assigned, and the
  \<open>razorpay_order_id\<close> of the request takes no part in the check. The outcome is a
  function of the payment id, the signature and the secret.
\<close>

theorem paymentVerification_signature_check:
  assumes "user_id req \<noteq> []"
  shows "(fst (paymentVerification hmac e req s) = errorHandler (AppError 400 ''payment failed''))
       = (b_razorpay_signature (body req) \<noteq>
            Some (hmac secret (''undefined|'' @ js_string (b_razorpay_payment_id (body req)))))"
proof (cases "b_razorpay_signature (body req) =
            Some (hmac secret (''undefined|'' @ js_string (b_razorpay_payment_id (body req))))")
  case True
  have "code (fst (paymentVerification hmac e req s)) \<noteq> 400"
    using True assms
    by (auto simp: paymentVerification_def generated_signature_def orderId_def js_string_def Let_def
             dest: paymentModel_create_Inl split: sum.splits prod.splits)
  moreover have "code (errorHandler (AppError 400 ''payment failed'')) = 400"
    by simp
  ultimately have "fst (paymentVerification hmac e req s) \<noteq> errorHandler (AppError 400 ''payment failed'')"
    by metis
  with True show ?thesis by simp
next
  case False
  with assms show ?thesis
    by (auto simp: paymentVerification_def generated_signature_def orderId_def js_string_def Let_def)
qed

theorem paymentVerification_signature_check_witness:
  "user_id (verify_request (digest secret ''order_1|pay_1'')) \<noteq> []
   \<and> fst (paymentVerification digest (store_ok ''pm1'')
            (verify_request (digest secret ''order_1|pay_1'')) demo_store)
       = errorHandler (AppError 400 ''payment failed'')"
proof -
  have a: "user_id (verify_request (digest secret ''order_1|pay_1'')) \<noteq> []"
    by (simp add: verify_request_def)
  have b: "b_razorpay_signature (body (verify_request (digest secret ''order_1|pay_1''))) \<noteq>
            Some (digest secret (''undefined|'' @
              js_string (b_razorpay_payment_id (body (verify_request (digest secret ''order_1|pay_1''))))))"
    by (simp add: verify_request_def digest_def js_string_def)
  from paymentVerification_signature_check [OF a, of digest "store_ok ''pm1''" demo_store] a b
  show ?thesis by blast
qed

section \<open>C6: the same signature twice\<close>

lemma list_ex_append_last:
  "list_ex P (xs @ [x]) = (list_ex P xs \<or> P x)"
  by (induction xs) auto

text \<open>
  C6, on the code. When a verification call succeeds, the same call made again persists no
  second payment record: the unique index refuses it. The duplicate-key error it raises
  matches none of the cases of \<open>errorHandler\<close> (email, userName, ticketType), so the
  second call is answered 500 \<open>Something went wrong\<close>, not 409.
\<close>

theorem duplicate_signature_second_call:
  assumes "fst (paymentVerification hmac e req s) = \<lparr>code = 200, content = Text ''success''\<rparr>"
  shows "paymentVerification hmac e' req (snd (paymentVerification hmac e req s))
           = (something_went_wrong, snd (paymentVerification hmac e req s))
       \<and> code something_went_wrong = 500
       \<and> length (Payments (snd (paymentVerification hmac e req s))) = Suc (length (Payments s))"
proof -
  have u: "user_id req \<noteq> []"
    using assms
    by (auto simp: paymentVerification_def Let_def errorResult_def json_response_def split: if_splits)
  have g: "Some (generated_signature hmac (body req)) = b_razorpay_signature (body req)"
    using assms u
    by (auto simp: paymentVerification_def Let_def errorResult_def json_response_def split: if_splits)
  obtain x where c: "paymentModel_create e (user_id req) (body req) s = x"
    by simp
  show ?thesis
  proof (cases x)
    case (Inl err)
    with assms u g c paymentModel_create_Inl [of e "user_id req" "body req" s err]
    have False
      by (auto simp: paymentVerification_def Let_def)
    then show ?thesis ..
  next
    case (Inr y)
    obtain d s1 where y: "y = (d, s1)" by (cases y)
    from c Inr y have s1: "snd (paymentVerification hmac e req s) = s1"
      using u g by (simp add: paymentVerification_def Let_def)
    from c Inr y obtain pid oid sig where
      r: "required_string (b_razorpay_payment_id (body req)) = Some pid"
         "required_string (b_razorpay_order_id (body req)) = Some oid"
         "required_string (b_razorpay_signature (body req)) = Some sig"
      and P: "Payments s1 = Payments s @ [(new_id e, \<lparr>pay_user = user_id req, razorpay_payment_id = pid,
                 razorpay_order_id = oid, razorpay_signature = sig\<rparr>)]"
      by (auto simp: paymentModel_create_def Let_def split: option.splits if_splits prod.splits)
    have "paymentModel_create e' (user_id req) (body req) s1
            = Inl (DuplicateKeyError ''razorpay_payment_id'' pid)"
      using r P by (simp add: paymentModel_create_def list_ex_append_last)
    then have "paymentVerification hmac e' req s1 = (something_went_wrong, s1)"
      using u g by (simp add: paymentVerification_def Let_def)
    with s1 P show ?thesis by simp
  qed
qed

theorem duplicate_signature_second_call_witness:
  "fst (paymentVerification digest (store_ok ''pm1'')
          (verify_request (digest secret ''undefined|pay_1'')) demo_store)
     = \<lparr>code = 200, content = Text ''success''\<rparr>
   \<and> fst (paymentVerification digest (store_ok ''pm2'')
          (verify_request (digest secret ''undefined|pay_1''))
          (snd (paymentVerification digest (store_ok ''pm1'')
                  (verify_request (digest secret ''undefined|pay_1'')) demo_store)))
     = something_went_wrong
   \<and> length (Payments (snd (paymentVerification digest (store_ok ''pm1'')
                  (verify_request (digest secret ''undefined|pay_1'')) demo_store))) = 1"
proof -
  have a: "fst (paymentVerification digest (store_ok ''pm1'')
          (verify_request (digest secret ''undefined|pay_1'')) demo_store)
     = \<lparr>code = 200, content = Text ''success''\<rparr>"
    by code_simp
  have b: "length (Payments demo_store) = 0"
    by (simp add: demo_store_def)
  from duplicate_signature_second_call [OF a, of "store_ok ''pm2''"] a b
  show ?thesis by simp
qed

section \<open>C7: quantities that are not positive\<close>

lemma purchase_commits:
  assumes "b_ticketType (body req) = Some ty" "b_ticketsQuantity (body req) = Some q"
    and "- MAX_SAFE_INTEGER \<le> q" "q \<le> MAX_SAFE_INTEGER"
    and "user_id req \<noteq> []" "isValid (param_id req)"
    and "\<not> find_fails e" "create_outcome e = Succeeds" "\<not> save_fails e"
    and "findById (Tickets s) (param_id req) = Some t" "ticketType t = ty" "trim ty \<noteq> []"
    and "q \<le> ticketsAvailable t"
  shows "code (fst (purchaseTicketController e req s)) = 201
       \<and> Purchases (snd (purchaseTicketController e req s)) = Purchases s @
            [(new_id e, \<lparr>p_user = user_id req, p_event = t_event t, p_ticketType = trim ty,
                         ticketsQuantity = q, totalPrice = js_mul (price t) q\<rparr>)]
       \<and> available (snd (purchaseTicketController e req s)) (param_id req)
            = Some (ticketsAvailable (updateTicketsAvailable t q))"
proof -
  from assms(12) have ne: "ty \<noteq> []" by (auto simp: trim_def)
  with assms(1-4) have v: "purchaseTicketSchema (body req) = Inr (ty, q)"
    by (simp add: purchaseTicketSchema_def joi_string_def joi_number_def)
  let ?i = "castObjectId (param_id req)"
  let ?doc = "\<lparr>p_user = user_id req, p_event = t_event t, p_ticketType = ty,
               ticketsQuantity = q, totalPrice = js_mul (price t) q\<rparr>"
  let ?rec = "\<lparr>p_user = user_id req, p_event = t_event t, p_ticketType = trim ty,
               ticketsQuantity = q, totalPrice = js_mul (price t) q\<rparr>"
  let ?s1 = "s\<lparr>Purchases := Purchases s @ [(new_id e, ?rec)]\<rparr>"
  have f: "purchase_find e req s = Inr (?i, t, ?doc)"
    using v assms by (simp add: purchase_find_def Let_def)
  have c: "purchase_create e (?i, t, ?doc) s = (Inr (?i, t, new_id e, ?rec), ?s1)"
    using assms by (simp add: purchase_create_def PurchaseTicketModel_create_def Let_def)
  have m: "map_of (Tickets s) ?i = Some t"
    using assms(10) by (simp add: findById_def)
  have sv: "code (fst (purchase_save e (?i, t, new_id e, ?rec) ?s1)) = 201
      \<and> Purchases (snd (purchase_save e (?i, t, new_id e, ?rec) ?s1)) = Purchases ?s1
      \<and> available (snd (purchase_save e (?i, t, new_id e, ?rec) ?s1)) (param_id req)
           = Some (ticketsAvailable (updateTicketsAvailable t q))"
    using assms(9,10) m
    by (auto simp: purchase_save_def Let_def available_def findById_updateById)
  have R: "purchaseTicketController e req s = purchase_save e (?i, t, new_id e, ?rec) ?s1"
    using f c by (simp add: purchaseTicketController_def)
  from sv R show ?thesis by simp
qed

lemma two_pow_pos: "0 < two_pow k"
  by (simp add: two_pow_def)

lemma round_half_even_nonneg: "0 \<le> y \<Longrightarrow> 0 \<le> round_half_even y"
  by (auto simp: round_half_even_def Let_def)

lemma fl_nonneg: "0 \<le> x \<Longrightarrow> 0 \<le> fl x"
  by (auto simp: fl_def Let_def intro!: mult_nonneg_nonneg round_half_even_nonneg
                 divide_nonneg_pos two_pow_pos less_imp_le [OF two_pow_pos])

lemma updateTicketsAvailable_no_clamp:
  "q \<le> ticketsAvailable t \<Longrightarrow>
     ticketsAvailable (updateTicketsAvailable t q) = js_sub (ticketsAvailable t) q"
  using fl_nonneg [of "ticketsAvailable t - q"]
  by (simp add: updateTicketsAvailable_def js_sub_def Let_def)

lemma purchaseTicketSchema_refuses:
  assumes "b_ticketsQuantity b = None
           \<or> (\<exists>q. b_ticketsQuantity b = Some q \<and> (q < - MAX_SAFE_INTEGER \<or> MAX_SAFE_INTEGER < q))"
  shows "\<exists>err. purchaseTicketSchema b = Inl err"
proof (cases "joi_string ''ticketType'' (b_ticketType b)")
  case (Inl err)
  then show ?thesis by (simp add: purchaseTicketSchema_def)
next
  case (Inr ty)
  with assms show ?thesis
    by (auto simp: purchaseTicketSchema_def joi_number_def)
qed

lemma purchase_refused_by_validation:
  assumes "purchaseTicketSchema (body req) = Inl err"
  shows "code (fst (purchaseTicketController e req s)) = 400 \<and> snd (purchaseTicketController e req s) = s"
  using assms purchaseTicketSchema_Inl [OF assms]
  by (simp add: purchaseTicketController_def purchase_find_def)

text \<open>
  C7, as amended. A purchase request that carries no \<open>ticketsQuantity\<close>, or one below
  \<open>-Number.MAX_SAFE_INTEGER\<close>, is rejected as invalid input (400) and changes nothing.
  Any other quantity that is zero or negative passes the validation, which asks for a
  safe number and not for a positive one: when the principal and the id are in order, the
  ticket exists with the requested type and a price the ticket schema admits, the
  quantity does not exceed \<open>ticketsAvailable\<close> and the store performs its operations, the
  purchase is committed (201), a record with that quantity and the product
  \<open>price * quantity\<close> of the two doubles is created, and the ticket is left with the
  difference \<open>ticketsAvailable - quantity\<close> of the two doubles, which is the exact
  difference when both are integers and it does not exceed \<open>Number.MAX_SAFE_INTEGER\<close>.
\<close>

theorem purchase_quantity_validation:
  "(b_ticketsQuantity (body req) = None \<longrightarrow>
      code (fst (purchaseTicketController e req s)) = 400 \<and> snd (purchaseTicketController e req s) = s)
   \<and> (b_ticketsQuantity (body req) = Some q \<and> q < - MAX_SAFE_INTEGER \<longrightarrow>
      code (fst (purchaseTicketController e req s)) = 400 \<and> snd (purchaseTicketController e req s) = s)
   \<and> (b_ticketType (body req) = Some ty \<and> b_ticketsQuantity (body req) = Some q
      \<and> q \<le> 0 \<and> - MAX_SAFE_INTEGER \<le> q
      \<and> user_id req \<noteq> [] \<and> isValid (param_id req)
      \<and> \<not> find_fails e \<and> create_outcome e = Succeeds \<and> \<not> save_fails e
      \<and> findById (Tickets s) (param_id req) = Some t \<and> ticketType t = ty \<and> trim ty \<noteq> []
      \<and> \<bar>price t\<bar> \<le> MAX_SAFE_INTEGER \<and> q \<le> ticketsAvailable t
      \<longrightarrow> code (fst (purchaseTicketController e req s)) = 201
        \<and> Purchases (snd (purchaseTicketController e req s)) = Purchases s @
            [(new_id e, \<lparr>p_user = user_id req, p_event = t_event t, p_ticketType = trim ty,
                         ticketsQuantity = q, totalPrice = js_mul (price t) q\<rparr>)]
        \<and> available (snd (purchaseTicketController e req s)) (param_id req)
            = Some (js_sub (ticketsAvailable t) q)
        \<and> (is_whole (ticketsAvailable t) \<and> is_whole q
             \<and> ticketsAvailable t - q \<le> MAX_SAFE_INTEGER
            \<longrightarrow> js_sub (ticketsAvailable t) q = ticketsAvailable t - q))"
proof -
  have 1: "code (fst (purchaseTicketController e req s)) = 400 \<and> snd (purchaseTicketController e req s) = s"
    if "b_ticketsQuantity (body req) = None"
  proof -
    from that purchaseTicketSchema_refuses [of "body req"]
    obtain err where "purchaseTicketSchema (body req) = Inl err"
      by blast
    then show ?thesis by (rule purchase_refused_by_validation)
  qed
  have 2: "code (fst (purchaseTicketController e req s)) = 400 \<and> snd (purchaseTicketController e req s) = s"
    if "b_ticketsQuantity (body req) = Some q" "q < - MAX_SAFE_INTEGER"
  proof -
    from that purchaseTicketSchema_refuses [of "body req"]
    obtain err where "purchaseTicketSchema (body req) = Inl err"
      by blast
    then show ?thesis by (rule purchase_refused_by_validation)
  qed
  have 3: "code (fst (purchaseTicketController e req s)) = 201
        \<and> Purchases (snd (purchaseTicketController e req s)) = Purchases s @
            [(new_id e, \<lparr>p_user = user_id req, p_event = t_event t, p_ticketType = trim ty,
                         ticketsQuantity = q, totalPrice = js_mul (price t) q\<rparr>)]
        \<and> available (snd (purchaseTicketController e req s)) (param_id req)
            = Some (js_sub (ticketsAvailable t) q)
        \<and> (is_whole (ticketsAvailable t) \<and> is_whole q
             \<and> ticketsAvailable t - q \<le> MAX_SAFE_INTEGER
            \<longrightarrow> js_sub (ticketsAvailable t) q = ticketsAvailable t - q)"
    if h: "b_ticketType (body req) = Some ty" "b_ticketsQuantity (body req) = Some q"
      "q \<le> 0" "- MAX_SAFE_INTEGER \<le> q"
      "user_id req \<noteq> []" "isValid (param_id req)"
      "\<not> find_fails e" "create_outcome e = Succeeds" "\<not> save_fails e"
      "findById (Tickets s) (param_id req) = Some t" "ticketType t = ty" "trim ty \<noteq> []"
      "q \<le> ticketsAvailable t"
  proof -
    have qm: "q \<le> MAX_SAFE_INTEGER"
      using h(3) by (simp add: MAX_SAFE_INTEGER_def)
    have ex: "js_sub (ticketsAvailable t) q = ticketsAvailable t - q"
      if w: "is_whole (ticketsAvailable t)" "is_whole q" "ticketsAvailable t - q \<le> MAX_SAFE_INTEGER"
    proof -
      have "is_whole (ticketsAvailable t - q)"
        using w(1,2) by (rule is_whole_diff)
      moreover have "\<bar>ticketsAvailable t - q\<bar> \<le> MAX_SAFE_INTEGER"
        using w(3) h(13) by simp
      ultimately show ?thesis
        unfolding js_sub_def by (rule fl_whole_exact)
    qed
    from purchase_commits [OF h(1,2,4) qm h(5-13)] updateTicketsAvailable_no_clamp [OF h(13)] ex
    show ?thesis by simp
  qed
  from 1 2 3 show ?thesis by blast
qed

theorem purchase_quantity_validation_witness:
  "b_ticketsQuantity (body (buy ''user1'' 0)) = Some 0 \<and> (0::rat) \<le> 0
   \<and> code (fst (purchaseTicketController (store_ok ''p1'') (buy ''user1'' 0) demo_store)) = 201
   \<and> available (snd (purchaseTicketController (store_ok ''p1'') (buy ''user1'' 0) demo_store))
        ''65a1b2c3d4e5f60718293b01'' = Some 5
   \<and> b_ticketsQuantity (body (buy ''user1'' (- 9007199254740992))) = Some (- 9007199254740992)
   \<and> code (fst (purchaseTicketController (store_ok ''p1'') (buy ''user1'' (- 9007199254740992))
               demo_store)) = 400
   \<and> b_ticketsQuantity (body ((buy ''user1'' 0)\<lparr>body := \<lparr>b_ticketType = Some ''VIP'', b_ticketsQuantity = None\<rparr>\<rparr>)) = None
   \<and> code (fst (purchaseTicketController (store_ok ''p1'')
         ((buy ''user1'' 0)\<lparr>body := \<lparr>b_ticketType = Some ''VIP'', b_ticketsQuantity = None\<rparr>\<rparr>) demo_store)) = 400"
proof -
  let ?t = "\<lparr>t_admin = ''admin1'', t_event = ''65a1b2c3d4e5f60718293a01'', ticketType = ''VIP'', price = 100,
            ticketsAvailable = 5\<rparr>"
  have h: "b_ticketType (body (buy ''user1'' 0)) = Some ''VIP'' \<and> b_ticketsQuantity (body (buy ''user1'' 0)) = Some 0
      \<and> (0::rat) \<le> 0 \<and> - MAX_SAFE_INTEGER \<le> 0
      \<and> user_id (buy ''user1'' 0) \<noteq> [] \<and> isValid (param_id (buy ''user1'' 0))
      \<and> \<not> find_fails (store_ok ''p1'') \<and> create_outcome (store_ok ''p1'') = Succeeds
      \<and> \<not> save_fails (store_ok ''p1'')
      \<and> findById (Tickets demo_store) (param_id (buy ''user1'' 0)) = Some ?t \<and> ticketType ?t = ''VIP''
      \<and> trim ''VIP'' \<noteq> []
      \<and> \<bar>price ?t\<bar> \<le> MAX_SAFE_INTEGER \<and> 0 \<le> ticketsAvailable ?t"
    by code_simp
  have w: "is_whole (ticketsAvailable ?t) \<and> is_whole 0 \<and> ticketsAvailable ?t - 0 \<le> MAX_SAFE_INTEGER"
    by code_simp
  have u: "b_ticketsQuantity (body (buy ''user1'' (- 9007199254740992))) = Some (- 9007199254740992)
      \<and> - 9007199254740992 < - MAX_SAFE_INTEGER"
    by (simp add: buy_def MAX_SAFE_INTEGER_def)
  have n: "b_ticketsQuantity (body ((buy ''user1'' 0)\<lparr>body := \<lparr>b_ticketType = Some ''VIP'', b_ticketsQuantity = None\<rparr>\<rparr>)) = None"
    by simp
  have p: "param_id (buy ''user1'' 0) = ''65a1b2c3d4e5f60718293b01''" by (simp add: buy_def)
  from purchase_quantity_validation [of "buy ''user1'' 0" "store_ok ''p1''" demo_store 0 "''VIP''" ?t] h w p
  have 1: "code (fst (purchaseTicketController (store_ok ''p1'') (buy ''user1'' 0) demo_store)) = 201
      \<and> available (snd (purchaseTicketController (store_ok ''p1'') (buy ''user1'' 0) demo_store))
        ''65a1b2c3d4e5f60718293b01'' = Some 5"
    by simp
  from purchase_quantity_validation
         [of "buy ''user1'' (- 9007199254740992)" "store_ok ''p1''" demo_store "- 9007199254740992"] u
  have 2: "code (fst (purchaseTicketController (store_ok ''p1'') (buy ''user1'' (- 9007199254740992))
               demo_store)) = 400"
    by blast
  from purchase_quantity_validation
         [of "(buy ''user1'' 0)\<lparr>body := \<lparr>b_ticketType = Some ''VIP'', b_ticketsQuantity = None\<rparr>\<rparr>"
             "store_ok ''p1''" demo_store] n
  have 3: "code (fst (purchaseTicketController (store_ok ''p1'')
         ((buy ''user1'' 0)\<lparr>body := \<lparr>b_ticketType = Some ''VIP'', b_ticketsQuantity = None\<rparr>\<rparr>) demo_store)) = 400"
    by blast
  from 1 2 3 h u n show ?thesis by simp
qed

text \<open>
  C7 as stated fails. A request for \<open>-2\<close> tickets is answered 201, a purchase record
  with quantity \<open>-2\<close> and total price \<open>-200\<close> is created, and the count rises from 5 to 7.
\<close>

theorem negative_quantity_accepted_counterexample:
  "b_ticketsQuantity (body (buy ''user1'' (- 2))) = Some (- 2)
   \<and> code (fst (purchaseTicketController (store_ok ''p1'') (buy ''user1'' (- 2)) demo_store)) = 201
   \<and> Purchases (snd (purchaseTicketController (store_ok ''p1'') (buy ''user1'' (- 2)) demo_store))
       = [(''p1'', \<lparr>p_user = ''user1'', p_event = ''65a1b2c3d4e5f60718293a01'', p_ticketType = ''VIP'',
                    ticketsQuantity = - 2, totalPrice = - 200\<rparr>)]
   \<and> available (snd (purchaseTicketController (store_ok ''p1'') (buy ''user1'' (- 2)) demo_store))
        ''65a1b2c3d4e5f60718293b01'' = Some 7"
  by code_simp

text \<open>
  Beyond the safe range the difference is rounded: a request for \<open>-(2^53 - 1)\<close> tickets
  against a count of 4 leaves \<open>2^53 + 4\<close>.
\<close>

lemma rounded_count_example:
  "available (snd (purchaseTicketController (store_ok ''p1'') (buy ''user1'' (- 9007199254740991))
      (demo_store\<lparr>Tickets := [(''65a1b2c3d4e5f60718293b01'',
          \<lparr>t_admin = ''admin1'', t_event = ''65a1b2c3d4e5f60718293a01'', ticketType = ''VIP'',
           price = 100, ticketsAvailable = 4\<rparr>)]\<rparr>))) ''65a1b2c3d4e5f60718293b01''
     = Some 9007199254740996"
  by code_simp

section \<open>C8: the price of a purchase\<close>

lemma update_leaves_purchases:
  "Purchases (snd (updateTicketByIdController req s)) = Purchases s"
  by (auto simp: updateTicketByIdController_def Ticket_findByIdAndUpdate_def Let_def
           split: sum.splits prod.splits option.splits if_splits)

lemma is_whole_mult: "is_whole a \<Longrightarrow> is_whole b \<Longrightarrow> is_whole (a * b)"
  by (metis is_whole_obtain is_whole_of_int of_int_mult)

text \<open>
  C8. A committed purchase of quantity \<open>q\<close> of a ticket whose stored price is \<open>p\<close>
  when the request is served (a price the ticket schema admits) appends one purchase
  record, with that quantity and as \<open>totalPrice\<close> the product \<open>p * q\<close> as the
  controller computes it, on doubles; this is the exact product whenever \<open>p\<close> and
  \<open>q\<close> are integers whose product is at most \<open>Number.MAX_SAFE_INTEGER\<close> in magnitude. An
  update of a ticket, whatever it sets, leaves the purchase records as they are.
\<close>

theorem purchase_price_captured:
  "(findById (Tickets s) (param_id req) = Some t \<and> b_ticketsQuantity (body req) = Some q
      \<and> \<bar>price t\<bar> \<le> MAX_SAFE_INTEGER
      \<and> code (fst (purchaseTicketController e req s)) = 201
    \<longrightarrow> (\<exists>u ev ty. Purchases (snd (purchaseTicketController e req s)) = Purchases s @
            [(new_id e, \<lparr>p_user = u, p_event = ev, p_ticketType = ty,
                         ticketsQuantity = q, totalPrice = js_mul (price t) q\<rparr>)])
        \<and> (is_whole (price t) \<and> is_whole q \<and> \<bar>price t * q\<bar> \<le> MAX_SAFE_INTEGER
            \<longrightarrow> js_mul (price t) q = price t * q))
   \<and> Purchases (snd (updateTicketByIdController ureq s2)) = Purchases s2"
proof -
  obtain r s' where R: "purchaseTicketController e req s = (r, s')"
    by (cases "purchaseTicketController e req s")
  have "\<exists>u ev ty. Purchases s' = Purchases s @
            [(new_id e, \<lparr>p_user = u, p_event = ev, p_ticketType = ty,
                         ticketsQuantity = q, totalPrice = js_mul (price t) q\<rparr>)]"
    if a: "findById (Tickets s) (param_id req) = Some t" "b_ticketsQuantity (body req) = Some q"
       "code r = 201"
  proof -
    from purchaseTicketController_cases [OF R] a(3) obtain t0 ty q0 where
      v: "purchaseTicketSchema (body req) = Inr (ty, q0)"
      and f: "findById (Tickets s) (param_id req) = Some t0"
      and P: "Purchases s' = Purchases s @
                  [(new_id e, \<lparr>p_user = user_id req, p_event = t_event t0, p_ticketType = trim ty,
                               ticketsQuantity = q0, totalPrice = js_mul (price t0) q0\<rparr>)]"
      by auto
    from v a(2) have "q0 = q"
      by (auto dest: purchaseTicketSchema_Inr)
    moreover from f a(1) have "t0 = t" by simp
    ultimately show ?thesis using P by blast
  qed
  moreover have "js_mul (price t) q = price t * q"
    if "is_whole (price t)" "is_whole q" "\<bar>price t * q\<bar> \<le> MAX_SAFE_INTEGER"
    unfolding js_mul_def using is_whole_mult [OF that(1,2)] that(3) by (rule fl_whole_exact)
  ultimately show ?thesis
    using R update_leaves_purchases by simp
qed

theorem purchase_price_captured_witness:
  "findById (Tickets demo_store) (param_id (buy ''user1'' 2))
     = Some \<lparr>t_admin = ''admin1'', t_event = ''65a1b2c3d4e5f60718293a01'', ticketType = ''VIP'', price = 100,
             ticketsAvailable = 5\<rparr>
   \<and> b_ticketsQuantity (body (buy ''user1'' 2)) = Some 2
   \<and> code (fst (purchaseTicketController (store_ok ''p1'') (buy ''user1'' 2) demo_store)) = 201
   \<and> (\<exists>u ev ty. Purchases (snd (purchaseTicketController (store_ok ''p1'') (buy ''user1'' 2) demo_store))
         = Purchases demo_store @
            [(new_id (store_ok ''p1''), \<lparr>p_user = u, p_event = ev, p_ticketType = ty,
                         ticketsQuantity = 2, totalPrice = 200\<rparr>)])
   \<and> Purchases (snd (updateTicketByIdController (reprice 150)
         (snd (purchaseTicketController (store_ok ''p1'') (buy ''user1'' 2) demo_store))))
       = Purchases (snd (purchaseTicketController (store_ok ''p1'') (buy ''user1'' 2) demo_store))"
proof -
  let ?t = "\<lparr>t_admin = ''admin1'', t_event = ''65a1b2c3d4e5f60718293a01'', ticketType = ''VIP'', price = 100,
             ticketsAvailable = 5\<rparr>"
  have a: "findById (Tickets demo_store) (param_id (buy ''user1'' 2)) = Some ?t"
    by code_simp
  have b: "b_ticketsQuantity (body (buy ''user1'' 2)) = Some 2"
    by (simp add: buy_def)
  have c: "code (fst (purchaseTicketController (store_ok ''p1'') (buy ''user1'' 2) demo_store)) = 201"
    by code_simp
  have d: "\<bar>price ?t\<bar> \<le> MAX_SAFE_INTEGER \<and> is_whole (price ?t) \<and> is_whole 2
           \<and> \<bar>price ?t * 2\<bar> \<le> MAX_SAFE_INTEGER \<and> price ?t * 2 = 200"
    by code_simp
  from purchase_price_captured [of demo_store "buy ''user1'' 2" ?t 2 "store_ok ''p1''" "reprice 150"
         "snd (purchaseTicketController (store_ok ''p1'') (buy ''user1'' 2) demo_store)"] a b c d
  show ?thesis by auto
qed

text \<open>In the instance of the witness the update does change the price of the ticket.\<close>

lemma reprice_changes_price:
  "map_option price (findById (Tickets (snd (updateTicketByIdController (reprice 150)
         (snd (purchaseTicketController (store_ok ''p1'') (buy ''user1'' 2) demo_store)))))
       ''65a1b2c3d4e5f60718293b01'')
     = Some 150"
  by code_simp

text \<open>
  Two products that are rounded: \<open>(2^53 - 1) * 3\<close>, and 3 tickets at the double
  nearest to 0.1, which cost the double 0.30000000000000004.
\<close>

lemma rounded_price_example:
  "map (totalPrice \<circ> snd) (Purchases (snd (purchaseTicketController (store_ok ''p1'') (buy ''user1'' 3)
      (demo_store\<lparr>Tickets := [(''65a1b2c3d4e5f60718293b01'',
          \<lparr>t_admin = ''admin1'', t_event = ''65a1b2c3d4e5f60718293a01'', ticketType = ''VIP'',
           price = 9007199254740991, ticketsAvailable = 5\<rparr>)]\<rparr>))))
     = [27021597764222972]"
  by code_simp

lemma fractional_price_example:
  "map (totalPrice \<circ> snd) (Purchases (snd (purchaseTicketController (store_ok ''p1'') (buy ''user1'' 3)
      (demo_store\<lparr>Tickets := [(''65a1b2c3d4e5f60718293b01'',
          \<lparr>t_admin = ''admin1'', t_event = ''65a1b2c3d4e5f60718293a01'', ticketType = ''VIP'',
           price = 3602879701896397 / 36028797018963968, ticketsAvailable = 5\<rparr>)]\<rparr>))))
     = [1351079888211149 / 4503599627370496]"
  by code_simp

section \<open>C9: more than is available\<close>

text \<open>
  C9. A purchase request that reaches the inventory check (its body passes the validation,
  it has a principal and a well-formed id, the ticket is found and has the requested
  type) and asks for more than \<open>ticketsAvailable\<close> is answered 400
  \<open>tickets not available\<close>, and the store is unchanged: the count keeps its value and no
  purchase record is created.
\<close>

theorem purchase_insufficient_inventory:
  assumes "purchaseTicketSchema (body req) = Inr (ty, q)"
    and "user_id req \<noteq> []" "isValid (param_id req)" "\<not> find_fails e"
    and "findById (Tickets s) (param_id req) = Some t" "ticketType t = ty"
    and "q > ticketsAvailable t"
  shows "purchaseTicketController e req s = (errorHandler (AppError 400 ''tickets not available''), s)"
  using assms
  by (simp add: purchaseTicketController_def purchase_find_def Let_def)

theorem purchase_insufficient_inventory_witness:
  "purchaseTicketController (store_ok ''p1'') (buy ''user1'' 6) demo_store
     = (errorHandler (AppError 400 ''tickets not available''), demo_store)"
proof -
  let ?t = "\<lparr>t_admin = ''admin1'', t_event = ''65a1b2c3d4e5f60718293a01'', ticketType = ''VIP'', price = 100,
             ticketsAvailable = 5\<rparr>"
  have "purchaseTicketSchema (body (buy ''user1'' 6)) = Inr (''VIP'', 6)"
       "user_id (buy ''user1'' 6) \<noteq> []" "isValid (param_id (buy ''user1'' 6))"
       "\<not> find_fails (store_ok ''p1'')"
       "findById (Tickets demo_store) (param_id (buy ''user1'' 6)) = Some ?t" "ticketType ?t = ''VIP''"
       "6 > ticketsAvailable ?t"
    by code_simp+
  then show ?thesis
    by (rule purchase_insufficient_inventory)
qed

text \<open>
  A quantity beyond \<open>Number.MAX_SAFE_INTEGER\<close> does not reach the inventory check: the
  validation refuses it, also with 400.
\<close>

lemma unsafe_quantity_refused_by_validation:
  "code (fst (purchaseTicketController (store_ok ''p1'') (buy ''user1'' 9007199254740992) demo_store)) = 400
   \<and> fst (purchaseTicketController (store_ok ''p1'') (buy ''user1'' 9007199254740992) demo_store)
       \<noteq> errorHandler (AppError 400 ''tickets not available'')"
  by code_simp

section \<open>C10: a cache hit comes before the checks\<close>

text \<open>
  C10. When the key of the ticket listing (of the comment listing) of an id is in the
  cache, the controller answers 200 with the cached value and leaves the store as it is,
  whatever the principal of the request and whether or not the id is well formed: the
  answer depends on the cached value alone.
\<close>

theorem cache_hit_bypasses_checks:
  "(cache s (''tickets:'' @ i) = Some v \<longrightarrow>
      ticketListByEventController \<lparr>user_id = u, param_id = i, body = b\<rparr> s
        = (json_response 200 (JObj [(''status'', JBool True), (''message'', JStr ''successful''),
                                    (''tickets'', v)]), s))
   \<and> (cache s (''comment:'' @ i) = Some w \<longrightarrow>
      commentListController \<lparr>user_id = u, param_id = i, body = b\<rparr> s
        = (json_response 200 (JObj [(''status'', JBool True), (''message'', JStr ''successful''),
                                    (''allComments'', w)]), s))"
  by (simp add: ticketListByEventController_def commentListController_def Let_def)

theorem cache_hit_bypasses_checks_witness:
  "cache warm_store (''tickets:'' @ ''65a1b2c3d4e5f60718293a01'') = Some cached_tickets
   \<and> cache warm_store (''comment:'' @ ''65a1b2c3d4e5f60718293a01'') = Some cached_comments
   \<and> fst (ticketListByEventController \<lparr>user_id = [], param_id = ''65a1b2c3d4e5f60718293a01'', body = ()\<rparr> warm_store)
       = json_response 200 (JObj [(''status'', JBool True), (''message'', JStr ''successful''),
                                  (''tickets'', cached_tickets)])
   \<and> fst (commentListController \<lparr>user_id = [], param_id = ''65a1b2c3d4e5f60718293a01'', body = ()\<rparr> warm_store)
       = json_response 200 (JObj [(''status'', JBool True), (''message'', JStr ''successful''),
                                  (''allComments'', cached_comments)])"
proof -
  have a: "cache warm_store (''tickets:'' @ ''65a1b2c3d4e5f60718293a01'') = Some cached_tickets"
    by code_simp
  have b: "cache warm_store (''comment:'' @ ''65a1b2c3d4e5f60718293a01'') = Some cached_comments"
    by code_simp
  from cache_hit_bypasses_checks [of warm_store "''65a1b2c3d4e5f60718293a01''" cached_tickets "[]" "()" cached_comments] a b
  show ?thesis by simp
qed

text \<open>Without the entry the same request, which has no principal id, is refused.\<close>

lemma cold_cache_checks_run:
  "code (fst (ticketListByEventController \<lparr>user_id = [], param_id = ''65a1b2c3d4e5f60718293a01'', body = ()\<rparr> demo_store)) = 401"
  by code_simp

end
